theory Spec2Isabelle
  imports Complex_Main "HOL-Library.Sublist"
begin

section \<open>Data model\<close>

text \<open>
  A price held in a candle or in the cache and a reading of the clock \<open>time.time()\<close> are
  finite doubles, held as the real numbers they are; differences and comparisons of clock
  readings are taken in \<^typ>\<open>real\<close>. The arithmetic of the signal engine on prices is
  the arithmetic of doubles, with its rounding, defined with the engine. Python's
  unbounded integers are \<^typ>\<open>int\<close>.
\<close>

text \<open>
  Exceptions. \<open>BinanceClientError\<close> carries its message and the optional HTTP response
  (kept as its text); the other constructors are the builtin exceptions the modelled code
  can meet, and \<open>OtherError\<close> stands for any further exception of a collaborator.
\<close>

datatype exn =
    BinanceClientError string "string option"
  | ValueError string
  | IndexError
  | KeyError string
  | ZeroDivisionError
  | OtherError string

text \<open>
  A value decoded from the exchange's JSON, described by what the Python builtins make of
  it: \<open>int(v)\<close> and \<open>float(v)\<close> return a number or raise, \<open>str(v)\<close> returns a string.
\<close>

record py_val =
  as_int :: "exn + int"
  as_float :: "exn + real"
  as_str :: string

type_synonym py_dict = "string \<rightharpoonup> py_val"

record Candle =
  open_time :: int
  open_price :: real
  high :: real
  low :: real
  close :: real
  volume :: real

datatype Signal = LONG | SHORT | HOLD

section \<open>Signal engine (\<open>strategy/simple_signal.py\<close>)\<close>

record SimpleSignalStrategy =
  ma_period :: int

text \<open>\<open>SimpleSignalStrategy.__init__\<close>: a period below 2 raises \<open>ValueError\<close>.\<close>

definition new_strategy :: "int \<Rightarrow> exn + SimpleSignalStrategy" where
  "new_strategy p =
     (if p < 2 then Inl (ValueError ''ma_period must be at least 2'')
      else Inr \<lparr>ma_period = p\<rparr>)"

text \<open>
  The Python slice \<open>xs[start:]\<close>: a negative start counts from the end and is clipped at
  the front, a non-negative one is clipped at the end.
\<close>

definition py_slice_from :: "int \<Rightarrow> 'a list \<Rightarrow> 'a list" where
  "py_slice_from start xs =
     (let n = int (length xs);
          i = (if start < 0 then max 0 (n + start) else min start n)
      in drop (nat i) xs)"

subsection \<open>Double arithmetic\<close>

text \<open>
  The value of a Python float: a finite number, an infinity, or NaN. The two zeros are
  one value here; they compare equal, and nothing below divides by a float zero.
\<close>

datatype pyfloat = Fin real | PosInf | NegInf | NaN

text \<open>Powers of two with an integer exponent.\<close>

definition pow2 :: "int \<Rightarrow> real" where
  "pow2 e = (if 0 \<le> e then 2 ^ nat e else 1 / 2 ^ nat (- e))"

text \<open>
  The binary exponent of a number on the grid of the doubles: the least \<open>e\<close> from
  \<open>-1022\<close> on with \<open>|x| < 2 ^ (e + 1)\<close>, looked for among the exponents of the format
  and one beyond.
\<close>

fun expo_from :: "real \<Rightarrow> int \<Rightarrow> nat \<Rightarrow> int" where
  "expo_from x e 0 = e"
| "expo_from x e (Suc fuel) = (if \<bar>x\<bar> < pow2 (e + 1) then e else expo_from x (e + 1) fuel)"

definition expo :: "real \<Rightarrow> int" where
  "expo x = expo_from x (- 1022) 2046"

text \<open>Rounding to the nearest integer, a tie to the even one.\<close>

definition round_half_even :: "real \<Rightarrow> int" where
  "round_half_even q =
     (let f = \<lfloor>q\<rfloor>; d = q - of_int f
      in if d < 1 / 2 then f else if d > 1 / 2 then f + 1
         else if even f then f else f + 1)"

text \<open>
  Rounding of an exact result to a double (round to nearest, ties to even): 53 bits at
  the exponent of the number, the subnormal grid below \<open>2 ^ - 1022\<close>, an infinity from
  \<open>2 ^ 1024\<close> on.
\<close>

definition round64 :: "real \<Rightarrow> pyfloat" where
  "round64 x =
     (let u = pow2 (expo x - 52);
          y = of_int (round_half_even (x / u)) * u
      in if pow2 1024 \<le> y then PosInf
         else if y \<le> - pow2 1024 then NegInf
         else Fin y)"

text \<open>Addition of doubles: the exact sum, rounded; the rules of the infinities and NaN.\<close>

fun fl_add :: "pyfloat \<Rightarrow> pyfloat \<Rightarrow> pyfloat" where
  "fl_add NaN b = NaN"
| "fl_add a NaN = NaN"
| "fl_add PosInf NegInf = NaN"
| "fl_add NegInf PosInf = NaN"
| "fl_add PosInf b = PosInf"
| "fl_add NegInf b = NegInf"
| "fl_add a PosInf = PosInf"
| "fl_add a NegInf = NegInf"
| "fl_add (Fin x) (Fin y) = round64 (x + y)"

text \<open>
  Division of doubles by a double other than zero (Python raises before it divides by
  zero, see \<open>py_truediv\<close>): the exact quotient, rounded.
\<close>

fun fl_div :: "pyfloat \<Rightarrow> pyfloat \<Rightarrow> pyfloat" where
  "fl_div NaN b = NaN"
| "fl_div a NaN = NaN"
| "fl_div PosInf (Fin y) = (if 0 < y then PosInf else NegInf)"
| "fl_div NegInf (Fin y) = (if 0 < y then NegInf else PosInf)"
| "fl_div (Fin x) (Fin y) = round64 (x / y)"
| "fl_div (Fin x) b = Fin 0"
| "fl_div a b = NaN"

text \<open>The comparison \<open><\<close> of doubles; it is false whenever NaN is compared.\<close>

fun fl_lt :: "pyfloat \<Rightarrow> pyfloat \<Rightarrow> bool" where
  "fl_lt (Fin x) (Fin y) = (x < y)"
| "fl_lt (Fin x) PosInf = True"
| "fl_lt NegInf (Fin y) = True"
| "fl_lt NegInf PosInf = True"
| "fl_lt a b = False"

text \<open>
  \<open>x / n\<close> for a float \<open>x\<close> and an integer \<open>n\<close>: a zero divisor raises
  \<open>ZeroDivisionError\<close>; otherwise the integer (here the length of a list) is converted
  to a double and the doubles are divided.
\<close>

definition py_truediv :: "pyfloat \<Rightarrow> int \<Rightarrow> exn + pyfloat" where
  "py_truediv x n =
     (if n = 0 then Inl ZeroDivisionError else Inr (fl_div x (round64 (real_of_int n))))"

text \<open>
  Python's \<open>sum\<close> on floats: the additions from left to right, starting from \<open>0\<close>, each
  one rounded. (CPython from version 3.12 on carries a correction term through a sum of
  floats; the sum evaluated in this theory, of three times 0.1, is the same with it.)
\<close>

definition py_sum :: "pyfloat list \<Rightarrow> pyfloat" where
  "py_sum xs = foldl fl_add (Fin 0) xs"

text \<open>
  \<open>compute_ma\<close>: \<open>None\<close> on a history shorter than the period, else the sum of the
  closes of the slice \<open>candles[-ma_period:]\<close> divided by their number.
\<close>

definition compute_ma :: "SimpleSignalStrategy \<Rightarrow> Candle list \<Rightarrow> exn + pyfloat option" where
  "compute_ma self candles =
     (if int (length candles) < ma_period self then Inr None
      else
        let closes = map (\<lambda>c. Fin (close c)) (py_slice_from (- ma_period self) candles)
        in case py_truediv (py_sum closes) (int (length closes)) of
             Inl e \<Rightarrow> Inl e
           | Inr ma \<Rightarrow> Inr (Some ma))"

text \<open>
  \<open>generate\<close>. \<open>candles[-1]\<close> is read only after the emptiness test, so \<^const>\<open>last\<close>
  is applied to a non-empty list. \<open>last_close > ma\<close> is \<open>ma < last_close\<close>.
\<close>

definition generate :: "SimpleSignalStrategy \<Rightarrow> Candle list \<Rightarrow> exn + Signal" where
  "generate self candles =
     (if candles = [] then Inr HOLD
      else
        case compute_ma self candles of
          Inl e \<Rightarrow> Inl e
        | Inr None \<Rightarrow> Inr HOLD
        | Inr (Some ma) \<Rightarrow>
            let last_close = Fin (close (last candles))
            in if fl_lt ma last_close then Inr LONG
               else if fl_lt last_close ma then Inr SHORT
               else Inr HOLD)"

text \<open>
  The arithmetic mean of the closes of the last \<open>p\<close> candles, written the way the
  specification words it.
\<close>

definition spec_mean_last :: "nat \<Rightarrow> Candle list \<Rightarrow> real" where
  "spec_mean_last p candles =
     (\<Sum>i = length candles - p ..< length candles. close (candles ! i)) / real p"

text \<open>
  The same mean as double arithmetic gives it: the closes added one by one from the first
  of the window on, each sum rounded, and the last sum divided by their number.
\<close>

definition float_mean_last :: "nat \<Rightarrow> Candle list \<Rightarrow> pyfloat" where
  "float_mean_last p candles =
     fl_div
       (foldl fl_add (Fin 0)
          (map (\<lambda>i. Fin (close (candles ! i))) [length candles - p ..< length candles]))
       (round64 (real p))"

text \<open>
  Example values: the double nearest to 0.1, a window of three candles closing at it, and
  the doubles that the sum of the three closes and their mean round to
  (0.30000000000000004 and 0.10000000000000002).
\<close>

definition d01 :: real where
  "d01 = 3602879701896397 / 36028797018963968"

definition flat01 :: "Candle list" where
  "flat01 = replicate 3
     \<lparr>open_time = 0, open_price = d01, high = d01, low = d01, close = d01, volume = 1\<rparr>"

definition d03 :: real where
  "d03 = 5404319552844596 / 18014398509481984"

definition d01_up :: real where
  "d01_up = 7205759403792795 / 72057594037927936"

section \<open>Exchange collaborator\<close>

text \<open>
  The exchange client is a collaborator: what it answers is an input of the model, and
  the calls made to it are recorded in order, so that "no order was submitted" is a
  statement about the record.
\<close>

datatype client_call =
    GetKlines string string int
  | GetTickerPrice string
  | GetOpenOrders string
  | PlaceMarketOrder string string real

record BinanceClient =
  calls :: "client_call list"

section \<open>Order guard and executor (\<open>execution/order_manager.py\<close>)\<close>

text \<open>
  The \<open>response\<close> field of an \<open>OrderResult\<close> holds the exchange's reply record on success
  and the HTTP response attached to the error on rejection.
\<close>

datatype response_val = ReplyDict py_dict | HttpResponse string

record OrderResult =
  success :: bool
  order_id :: "string option"
  message :: string
  response :: "response_val option"

record OrderManager =
  client :: BinanceClient
  symbol :: string
  position_size :: real
  order_type :: string
  order_cooldown_seconds :: int
  last_order_time :: "string \<rightharpoonup> real"

text \<open>\<open>str.upper\<close>, on ASCII letters.\<close>

definition py_upper :: "string \<Rightarrow> string" where
  "py_upper s = map (\<lambda>c. let n = (of_char c :: nat)
                         in if 97 \<le> n \<and> n \<le> 122 then char_of (n - 32) else c) s"

definition new_order_manager ::
  "BinanceClient \<Rightarrow> string \<Rightarrow> real \<Rightarrow> string \<Rightarrow> int \<Rightarrow> OrderManager" where
  "new_order_manager cl smb psize otype cooldown =
     \<lparr>client = cl, symbol = smb, position_size = psize, order_type = py_upper otype,
      order_cooldown_seconds = cooldown, last_order_time = Map.empty\<rparr>"

text \<open>\<open>str\<close> of an integer, for the f-strings.\<close>

function str_nat :: "nat \<Rightarrow> string" where
  "str_nat n = (if n < 10 then [char_of (48 + n)]
                else str_nat (n div 10) @ [char_of (48 + n mod 10)])"
  by pat_completeness auto
termination
  by (relation "measure id") auto

declare str_nat.simps [simp del]

definition str_int :: "int \<Rightarrow> string" where
  "str_int i = (if i < 0 then CHR ''-'' # str_nat (nat (- i)) else str_nat (nat i))"

text \<open>
  What the exchange and the clock give to one \<open>execute\<close> call: the answer of
  \<open>get_open_orders\<close>, the reading of \<open>time.time()\<close> in \<open>_is_on_cooldown\<close>, the answer
  of \<open>place_market_order\<close> and the reading of \<open>time.time()\<close> in \<open>_record_order\<close>.
  Each is used only if the call reaches the statement that asks for it.
\<close>

record exec_env =
  open_orders_reply :: "exn + py_dict list"
  now_cooldown :: real
  place_order_reply :: "exn + py_dict"
  now_record :: real

definition call_client :: "client_call \<Rightarrow> OrderManager \<Rightarrow> OrderManager" where
  "call_client c self = self\<lparr>client := (client self)\<lparr>calls := calls (client self) @ [c]\<rparr>\<rparr>"

text \<open>
  \<open>has_open_orders\<close>: only \<open>BinanceClientError\<close> is caught, and answered by \<open>True\<close>;
  any other exception leaves the function.
\<close>

definition has_open_orders ::
  "OrderManager \<Rightarrow> exn + py_dict list \<Rightarrow> (exn + bool) \<times> OrderManager" where
  "has_open_orders self reply =
     (let self' = call_client (GetOpenOrders (symbol self)) self
      in case reply of
           Inr orders \<Rightarrow> (Inr (length orders > 0), self')
         | Inl (BinanceClientError m r) \<Rightarrow> (Inr True, self')
         | Inl e \<Rightarrow> (Inl e, self'))"

definition is_on_cooldown :: "OrderManager \<Rightarrow> string \<Rightarrow> real \<Rightarrow> bool" where
  "is_on_cooldown self side now =
     (let last = (case last_order_time self side of None \<Rightarrow> 0 | Some t \<Rightarrow> t)
      in now - last < real_of_int (order_cooldown_seconds self))"

definition record_order :: "OrderManager \<Rightarrow> string \<Rightarrow> real \<Rightarrow> OrderManager" where
  "record_order self side now = self\<lparr>last_order_time := (last_order_time self)(side \<mapsto> now)\<rparr>"

text \<open>\<open>str(result.get("orderId", ""))\<close>\<close>

definition order_id_of :: "py_dict \<Rightarrow> string" where
  "order_id_of result = (case result ''orderId'' of None \<Rightarrow> [] | Some v \<Rightarrow> as_str v)"

text \<open>
  \<open>execute\<close>. The result is \<open>Inr\<close> of the returned \<open>OrderResult\<close>, or \<open>Inl\<close> of an
  exception that leaves the method; the second component is the manager afterwards.
\<close>

definition execute ::
  "OrderManager \<Rightarrow> exec_env \<Rightarrow> Signal \<Rightarrow> (exn + OrderResult) \<times> OrderManager" where
  "execute self env signal =
     (if signal = HOLD then
        (Inr \<lparr>success = True, order_id = None, message = ''HOLD - no order placed'',
              response = None\<rparr>, self)
      else
        let side = (if signal = LONG then ''BUY'' else ''SELL'')
        in case has_open_orders self (open_orders_reply env) of
             (Inl e, self1) \<Rightarrow> (Inl e, self1)
           | (Inr True, self1) \<Rightarrow>
               (Inr \<lparr>success = False, order_id = None,
                     message = ''Skipping '' @ side @ '': open orders exist for '' @ symbol self1,
                     response = None\<rparr>, self1)
           | (Inr False, self1) \<Rightarrow>
               if is_on_cooldown self1 side (now_cooldown env) then
                 (Inr \<lparr>success = False, order_id = None,
                       message = ''Skipping '' @ side @ '': cooldown active (''
                                 @ str_int (order_cooldown_seconds self1) @ ''s)'',
                       response = None\<rparr>, self1)
               else
                 let self2 = call_client
                       (PlaceMarketOrder (symbol self1) side (position_size self1)) self1
                 in case place_order_reply env of
                      Inr result \<Rightarrow>
                        let self3 = record_order self2 side (now_record env);
                            oid = order_id_of result
                        in (Inr \<lparr>success = True, order_id = Some oid,
                                  message = ''Order placed: '' @ oid,
                                  response = Some (ReplyDict result)\<rparr>, self3)
                    | Inl (BinanceClientError m r) \<Rightarrow>
                        (Inr \<lparr>success = False, order_id = None, message = m,
                              response = map_option HttpResponse r\<rparr>, self2)
                    | Inl e \<Rightarrow> (Inl e, self2))"

text \<open>The side an order for a signal is placed on.\<close>

definition side_of :: "Signal \<Rightarrow> string" where
  "side_of signal = (if signal = LONG then ''BUY'' else ''SELL'')"

text \<open>The orders submitted to the exchange, read off the record of calls.\<close>

definition is_submission :: "client_call \<Rightarrow> bool" where
  "is_submission c = (case c of PlaceMarketOrder s d q \<Rightarrow> True | _ \<Rightarrow> False)"

definition submissions :: "OrderManager \<Rightarrow> client_call list" where
  "submissions self = filter is_submission (calls (client self))"

text \<open>The two f-string messages of the skipped paths, named for the proofs.\<close>

definition open_orders_msg :: "string \<Rightarrow> string \<Rightarrow> string" where
  "open_orders_msg side smb = ''Skipping '' @ side @ '': open orders exist for '' @ smb"

definition cooldown_msg :: "string \<Rightarrow> int \<Rightarrow> string" where
  "cooldown_msg side n = ''Skipping '' @ side @ '': cooldown active ('' @ str_int n @ ''s)''"

text \<open>The typed error of the exchange client.\<close>

definition is_client_error :: "exn \<Rightarrow> bool" where
  "is_client_error e = (case e of BinanceClientError m r \<Rightarrow> True | _ \<Rightarrow> False)"

subsection \<open>Example values\<close>

text \<open>
  A manager as the tests build it, a reply of the exchange to a placed order, and the
  environments of a call that goes through, of a rejected order and of a failed query.
\<close>

definition demo_manager :: OrderManager where
  "demo_manager = new_order_manager \<lparr>calls = []\<rparr> ''BTCUSDT'' (1 / 1000) ''market'' 60"

definition demo_reply :: py_dict where
  "demo_reply = [''orderId'' \<mapsto> \<lparr>as_int = Inr 12345, as_float = Inr 12345, as_str = ''12345''\<rparr>]"

definition env_ok :: "real \<Rightarrow> real \<Rightarrow> exec_env" where
  "env_ok t1 t2 = \<lparr>open_orders_reply = Inr [], now_cooldown = t1,
                  place_order_reply = Inr demo_reply, now_record = t2\<rparr>"

definition env_rejected :: "real \<Rightarrow> exec_env" where
  "env_rejected t = \<lparr>open_orders_reply = Inr [], now_cooldown = t,
      place_order_reply = Inl (BinanceClientError ''Insufficient balance'' None),
      now_record = t\<rparr>"

definition env_query_failed :: "real \<Rightarrow> exec_env" where
  "env_query_failed t = \<lparr>open_orders_reply = Inl (BinanceClientError ''API error'' None),
      now_cooldown = t, place_order_reply = Inr demo_reply, now_record = t\<rparr>"

section \<open>Market data cache (\<open>data/market_data.py\<close>)\<close>

text \<open>Sequencing of computations that may raise: the first exception ends the sequence.\<close>

definition bind_exn :: "exn + 'a \<Rightarrow> ('a \<Rightarrow> exn + 'b) \<Rightarrow> exn + 'b" where
  "bind_exn m f = (case m of Inl e \<Rightarrow> Inl e | Inr x \<Rightarrow> f x)"

text \<open>\<open>xs[i]\<close> for a literal index \<open>i \<ge> 0\<close>: \<open>IndexError\<close> beyond the end.\<close>

definition py_item :: "'a list \<Rightarrow> nat \<Rightarrow> exn + 'a" where
  "py_item xs i = (if i < length xs then Inr (xs ! i) else Inl IndexError)"

text \<open>
  \<open>Candle.from_binance\<close>: the six leading fields of a kline record, converted in the
  order of the keyword arguments; further fields are not read.
\<close>

definition from_binance :: "py_val list \<Rightarrow> exn + Candle" where
  "from_binance raw =
     bind_exn (bind_exn (py_item raw 0) as_int) (\<lambda>ot.
     bind_exn (bind_exn (py_item raw 1) as_float) (\<lambda>op.
     bind_exn (bind_exn (py_item raw 2) as_float) (\<lambda>hi.
     bind_exn (bind_exn (py_item raw 3) as_float) (\<lambda>lo.
     bind_exn (bind_exn (py_item raw 4) as_float) (\<lambda>cl.
     bind_exn (bind_exn (py_item raw 5) as_float) (\<lambda>vol.
       Inr \<lparr>open_time = ot, open_price = op, high = hi, low = lo, close = cl,
            volume = vol\<rparr>))))))"

text \<open>The list comprehension \<open>[f(k) for k in raw]\<close> with an \<open>f\<close> that may raise.\<close>

fun map_exn :: "('a \<Rightarrow> exn + 'b) \<Rightarrow> 'a list \<Rightarrow> exn + 'b list" where
  "map_exn f [] = Inr []"
| "map_exn f (x # xs) = bind_exn (f x) (\<lambda>y. bind_exn (map_exn f xs) (\<lambda>ys. Inr (y # ys)))"

record MarketDataCache =
  candles :: "Candle list"
  ticker_price :: "real option"
  last_updated :: real
  ttl_seconds :: int

definition is_stale :: "MarketDataCache \<Rightarrow> real \<Rightarrow> bool" where
  "is_stale c now = (now - last_updated c > real_of_int (ttl_seconds c))"

definition update_candles :: "MarketDataCache \<Rightarrow> Candle list \<Rightarrow> real \<Rightarrow> MarketDataCache" where
  "update_candles c cs now = c\<lparr>candles := cs, last_updated := now\<rparr>"

definition update_ticker :: "MarketDataCache \<Rightarrow> real \<Rightarrow> real \<Rightarrow> MarketDataCache" where
  "update_ticker c price now = c\<lparr>ticker_price := Some price, last_updated := now\<rparr>"

text \<open>
  The service. Its fields \<open>client\<close> and \<open>symbol\<close> carry the prefix \<open>svc_\<close> here, the
  plain names being those of the order manager's fields. \<open>files\<close> is the content of the
  data directory, by file name.
\<close>

record MarketDataService =
  svc_client :: BinanceClient
  svc_symbol :: string
  timeframe :: string
  cache :: MarketDataCache
  files :: "string \<rightharpoonup> Candle list"

definition new_market_data_service ::
  "BinanceClient \<Rightarrow> string \<Rightarrow> string \<Rightarrow> int \<Rightarrow> (string \<rightharpoonup> Candle list) \<Rightarrow> MarketDataService" where
  "new_market_data_service cl smb tf ttl dir =
     \<lparr>svc_client = cl, svc_symbol = smb, timeframe = tf,
      cache = \<lparr>candles = [], ticker_price = None, last_updated = 0, ttl_seconds = ttl\<rparr>,
      files = dir\<rparr>"

definition svc_call :: "client_call \<Rightarrow> MarketDataService \<Rightarrow> MarketDataService" where
  "svc_call c self =
     self\<lparr>svc_client := (svc_client self)\<lparr>calls := calls (svc_client self) @ [c]\<rparr>\<rparr>"

text \<open>
  \<open>_persist_candles\<close>: the candles are written to the file of the symbol and timeframe;
  an \<open>OSError\<close> of the write is logged and swallowed.
\<close>

definition persist_candles :: "MarketDataService \<Rightarrow> Candle list \<Rightarrow> bool \<Rightarrow> MarketDataService" where
  "persist_candles self cs write_ok =
     (if write_ok
      then self\<lparr>files := (files self)(svc_symbol self @ ''_'' @ timeframe self @ ''.json'' \<mapsto> cs)\<rparr>
      else self)"

text \<open>
  What the clock, the exchange and the disk give to one \<open>get_klines\<close> call: the reading
  of \<open>time.time()\<close> in \<open>is_stale\<close>, the answer of the client's \<open>get_klines\<close>, the reading
  of \<open>time.time()\<close> in \<open>update_candles\<close>, and whether the file can be written.
\<close>

record klines_env =
  kl_now_check :: real
  kl_reply :: "exn + py_val list list"
  kl_now_update :: real
  kl_write_ok :: bool

definition get_klines ::
  "MarketDataService \<Rightarrow> klines_env \<Rightarrow> int \<Rightarrow> bool \<Rightarrow> (exn + Candle list) \<times> MarketDataService" where
  "get_klines self env limit force_refresh =
     (if \<not> force_refresh \<and> \<not> is_stale (cache self) (kl_now_check env)
         \<and> candles (cache self) \<noteq> []
      then (Inr (candles (cache self)), self)
      else
        let self1 = svc_call (GetKlines (svc_symbol self) (timeframe self) limit) self
        in case kl_reply env of
             Inl e \<Rightarrow> (Inl e, self1)
           | Inr raw \<Rightarrow>
               (case map_exn from_binance raw of
                  Inl e \<Rightarrow> (Inl e, self1)
                | Inr cs \<Rightarrow>
                    let self2 = self1\<lparr>cache := update_candles (cache self1) cs (kl_now_update env)\<rparr>;
                        self3 = persist_candles self2 cs (kl_write_ok env)
                    in (Inr cs, self3)))"

text \<open>
  The same for \<open>get_ticker_price\<close>: the reading of the clock in \<open>is_stale\<close>, the answer of
  the client's \<open>get_ticker_price\<close>, the reading of the clock in \<open>update_ticker\<close>.
\<close>

record ticker_env =
  tk_now_check :: real
  tk_reply :: "exn + py_dict"
  tk_now_update :: real

text \<open>Truth value of an optional float: \<open>None\<close> and zero are false.\<close>

definition truthy_price :: "real option \<Rightarrow> bool" where
  "truthy_price p = (case p of None \<Rightarrow> False | Some x \<Rightarrow> x \<noteq> 0)"

definition py_getitem :: "py_dict \<Rightarrow> string \<Rightarrow> exn + py_val" where
  "py_getitem d k = (case d k of None \<Rightarrow> Inl (KeyError k) | Some v \<Rightarrow> Inr v)"

definition get_ticker_price ::
  "MarketDataService \<Rightarrow> ticker_env \<Rightarrow> bool \<Rightarrow> (exn + real) \<times> MarketDataService" where
  "get_ticker_price self env force_refresh =
     (if \<not> force_refresh \<and> \<not> is_stale (cache self) (tk_now_check env)
         \<and> truthy_price (ticker_price (cache self))
      then (Inr (the (ticker_price (cache self))), self)
      else
        let self1 = svc_call (GetTickerPrice (svc_symbol self)) self
        in case tk_reply env of
             Inl e \<Rightarrow> (Inl e, self1)
           | Inr data \<Rightarrow>
               (case bind_exn (py_getitem data ''price'') as_float of
                  Inl e \<Rightarrow> (Inl e, self1)
                | Inr price \<Rightarrow>
                    (Inr price,
                     self1\<lparr>cache := update_ticker (cache self1) price (tk_now_update env)\<rparr>)))"

text \<open>A call that the cache answers, and a call that goes to the exchange.\<close>

definition klines_fetch_needed :: "MarketDataService \<Rightarrow> klines_env \<Rightarrow> bool \<Rightarrow> bool" where
  "klines_fetch_needed self env force_refresh =
     (force_refresh \<or> is_stale (cache self) (kl_now_check env) \<or> candles (cache self) = [])"

definition ticker_fetch_needed :: "MarketDataService \<Rightarrow> ticker_env \<Rightarrow> bool \<Rightarrow> bool" where
  "ticker_fetch_needed self env force_refresh =
     (force_refresh \<or> is_stale (cache self) (tk_now_check env)
      \<or> \<not> truthy_price (ticker_price (cache self)))"

text \<open>
  Example values: a service as the tests build it (TTL 30 seconds, nothing cached), a JSON
  number, two kline records, a ticker record, and the environments of calls at a time
  \<open>t\<close>.
\<close>

definition demo_service :: MarketDataService where
  "demo_service = new_market_data_service \<lparr>calls = []\<rparr> ''BTCUSDT'' ''5m'' 30 Map.empty"

definition json_num :: "int \<Rightarrow> py_val" where
  "json_num n = \<lparr>as_int = Inr n, as_float = Inr (real_of_int n), as_str = str_int n\<rparr>"

definition demo_klines :: "py_val list list" where
  "demo_klines =
     [[json_num 1000000, json_num 50000, json_num 50100, json_num 49900, json_num 50050,
       json_num 100],
      [json_num 1000060, json_num 50050, json_num 50200, json_num 50000, json_num 50150,
       json_num 110, json_num 7]]"

definition demo_candles :: "Candle list" where
  "demo_candles =
     [\<lparr>open_time = 1000000, open_price = 50000, high = 50100, low = 49900, close = 50050,
       volume = 100\<rparr>,
      \<lparr>open_time = 1000060, open_price = 50050, high = 50200, low = 50000, close = 50150,
       volume = 110\<rparr>]"

definition demo_ticker :: py_dict where
  "demo_ticker = [''price'' \<mapsto> json_num 50100]"

definition klines_at :: "real \<Rightarrow> exn + py_val list list \<Rightarrow> klines_env" where
  "klines_at t reply = \<lparr>kl_now_check = t, kl_reply = reply, kl_now_update = t, kl_write_ok = True\<rparr>"

definition ticker_at :: "real \<Rightarrow> exn + py_dict \<Rightarrow> ticker_env" where
  "ticker_at t reply = \<lparr>tk_now_check = t, tk_reply = reply, tk_now_update = t\<rparr>"

text \<open>The service after a fetch of the two candles at time 1000.\<close>

definition service_1000 :: MarketDataService where
  "service_1000 = snd (get_klines demo_service (klines_at 1000 (Inr demo_klines)) 10 False)"

text \<open>The same after a fetch of the quote at time 1029.\<close>

definition service_1029 :: MarketDataService where
  "service_1029 = snd (get_ticker_price service_1000 (ticker_at 1029 (Inr demo_ticker)) False)"

text \<open>The service after a fetch at time 1000 to which the exchange answered no candle.\<close>

definition service_empty_1000 :: MarketDataService where
  "service_empty_1000 = snd (get_klines demo_service (klines_at 1000 (Inr [])) 10 False)"

section \<open>Overlapping \<open>execute\<close> calls\<close>

text \<open>
  \<open>execute\<close> is a coroutine. It runs without interruption from one \<open>await\<close> of the
  exchange client to the next, and while it is suspended there (the client awaits the
  HTTP request) other tasks of the event loop run on the same manager. A task is at
  its start, suspended in \<open>get_open_orders\<close>, suspended in \<open>place_market_order\<close> (both
  with the side it computed), or done with what \<open>execute\<close> returns or raises.
\<close>

datatype exec_task =
    AtStart Signal
  | AwaitOpenOrders string
  | AwaitPlaceOrder string
  | Finished "exn + OrderResult"

text \<open>
  One uninterrupted stretch of \<open>execute\<close>: from the start to the first \<open>await\<close>, from
  the answer of \<open>get_open_orders\<close> to the second, from the answer of
  \<open>place_market_order\<close> to the end. The statements are those of \<^const>\<open>execute\<close>, cut at
  the two calls of the client.
\<close>

fun task_step :: "exec_env \<Rightarrow> exec_task \<Rightarrow> OrderManager \<Rightarrow> exec_task \<times> OrderManager" where
  "task_step env (AtStart signal) self =
     (if signal = HOLD then
        (Finished (Inr \<lparr>success = True, order_id = None,
                         message = ''HOLD - no order placed'', response = None\<rparr>), self)
      else
        let side = (if signal = LONG then ''BUY'' else ''SELL'')
        in (AwaitOpenOrders side, call_client (GetOpenOrders (symbol self)) self))"
| "task_step env (AwaitOpenOrders side) self =
     (case (case open_orders_reply env of
              Inr orders \<Rightarrow> Inr (length orders > 0)
            | Inl (BinanceClientError m r) \<Rightarrow> Inr True
            | Inl e \<Rightarrow> Inl e) of
        Inl e \<Rightarrow> (Finished (Inl e), self)
      | Inr True \<Rightarrow>
          (Finished (Inr \<lparr>success = False, order_id = None,
             message = ''Skipping '' @ side @ '': open orders exist for '' @ symbol self,
             response = None\<rparr>), self)
      | Inr False \<Rightarrow>
          if is_on_cooldown self side (now_cooldown env) then
            (Finished (Inr \<lparr>success = False, order_id = None,
               message = ''Skipping '' @ side @ '': cooldown active (''
                         @ str_int (order_cooldown_seconds self) @ ''s)'',
               response = None\<rparr>), self)
          else
            (AwaitPlaceOrder side,
             call_client (PlaceMarketOrder (symbol self) side (position_size self)) self))"
| "task_step env (AwaitPlaceOrder side) self =
     (case place_order_reply env of
        Inr result \<Rightarrow>
          let self' = record_order self side (now_record env);
              oid = order_id_of result
          in (Finished (Inr \<lparr>success = True, order_id = Some oid,
                message = ''Order placed: '' @ oid,
                response = Some (ReplyDict result)\<rparr>), self')
      | Inl (BinanceClientError m r) \<Rightarrow>
          (Finished (Inr \<lparr>success = False, order_id = None, message = m,
             response = map_option HttpResponse r\<rparr>), self)
      | Inl e \<Rightarrow> (Finished (Inl e), self))"
| "task_step env (Finished r) self = (Finished r, self)"

text \<open>
  Two tasks on one manager, each with its own answers of the exchange and readings of
  the clock. A schedule says which task the event loop resumes next: \<open>False\<close> the
  first, \<open>True\<close> the second.
\<close>

fun run_two ::
  "exec_env \<Rightarrow> exec_env \<Rightarrow> bool list \<Rightarrow> exec_task \<times> exec_task \<times> OrderManager
     \<Rightarrow> exec_task \<times> exec_task \<times> OrderManager" where
  "run_two envA envB [] st = st"
| "run_two envA envB (b # bs) (ta, tb, self) =
     (if b then
        (case task_step envB tb self of (tb', self') \<Rightarrow> run_two envA envB bs (ta, tb', self'))
      else
        (case task_step envA ta self of (ta', self') \<Rightarrow> run_two envA envB bs (ta', tb, self')))"

text \<open>A task run alone to its end: three stretches.\<close>

definition run_alone :: "exec_env \<Rightarrow> Signal \<Rightarrow> OrderManager \<Rightarrow> exec_task \<times> OrderManager" where
  "run_alone env signal self =
     (case task_step env (AtStart signal) self of (t1, s1) \<Rightarrow>
      case task_step env t1 s1 of (t2, s2) \<Rightarrow> task_step env t2 s2)"

text \<open>
  Two \<open>execute(LONG)\<close> tasks on the example manager, resumed in turn; the first reads
  the clock at 1000 and 1002, the second at 1001 and 1003.
\<close>

definition overlap_run :: "exec_task \<times> exec_task \<times> OrderManager" where
  "overlap_run = run_two (env_ok 1000 1002) (env_ok 1001 1003)
     [False, True, False, True, False, True] (AtStart LONG, AtStart LONG, demo_manager)"

definition demo_placed :: OrderResult where
  "demo_placed = \<lparr>success = True, order_id = Some ''12345'', message = ''Order placed: 12345'',
      response = Some (ReplyDict demo_reply)\<rparr>"

section \<open>Sequences of cache calls\<close>

text \<open>A call of the service, with what the clock and the exchange give to it.\<close>

datatype md_call = CallKlines klines_env int bool | CallTicker ticker_env bool

fun run_call :: "MarketDataService \<Rightarrow> md_call \<Rightarrow> MarketDataService" where
  "run_call self (CallKlines env limit force) = snd (get_klines self env limit force)"
| "run_call self (CallTicker env force) = snd (get_ticker_price self env force)"

definition run_calls :: "MarketDataService \<Rightarrow> md_call list \<Rightarrow> MarketDataService" where
  "run_calls self cs = foldl run_call self cs"

text \<open>
  The time a call stamps, if it writes: it went to the exchange (the record of calls grew)
  and returned a value.
\<close>

fun call_writes :: "MarketDataService \<Rightarrow> md_call \<Rightarrow> real option" where
  "call_writes self (CallKlines env limit force) =
     (if calls (svc_client (snd (get_klines self env limit force))) \<noteq> calls (svc_client self)
         \<and> \<not> isl (fst (get_klines self env limit force))
      then Some (kl_now_update env) else None)"
| "call_writes self (CallTicker env force) =
     (if calls (svc_client (snd (get_ticker_price self env force))) \<noteq> calls (svc_client self)
         \<and> \<not> isl (fst (get_ticker_price self env force))
      then Some (tk_now_update env) else None)"

text \<open>
  The time of the last write of either entry in a sequence of calls, \<open>t\<close> being the time
  of the last write before it.
\<close>

fun last_write :: "MarketDataService \<Rightarrow> real \<Rightarrow> md_call list \<Rightarrow> real" where
  "last_write self t [] = t"
| "last_write self t (c # cs) =
     last_write (run_call self c) (case call_writes self c of Some t' \<Rightarrow> t' | None \<Rightarrow> t) cs"

section \<open>Properties of the signal engine\<close>

lemma pow2_pos: "0 < pow2 e"
  by (simp add: pow2_def)

lemma pow2_add1: "pow2 (e + 1) = 2 * pow2 e"
proof (cases "0 \<le> e")
  case True
  then show ?thesis by (simp add: pow2_def nat_add_distrib)
next
  case False
  then have "nat (- e) = Suc (nat (- (e + 1)))" by simp
  with False show ?thesis
    by (cases "e + 1 = 0") (auto simp: pow2_def)
qed

lemma pow2_mono: "a \<le> b \<Longrightarrow> pow2 a \<le> pow2 b"
proof (induction "nat (b - a)" arbitrary: b)
  case 0
  then show ?case by simp
next
  case (Suc n)
  then have "n = nat ((b - 1) - a)" "a \<le> b - 1" by simp_all
  from Suc(1) [OF this] have "pow2 a \<le> pow2 (b - 1)" .
  also have "\<dots> \<le> pow2 b"
    using pow2_add1 [of "b - 1"] pow2_pos [of "b - 1"] by simp
  finally show ?case .
qed

lemma expo_from_eq:
  assumes "pow2 e \<le> \<bar>x\<bar>" and "\<bar>x\<bar> < pow2 (e + 1)" and "e0 \<le> e" and "e - e0 \<le> int fuel"
  shows "expo_from x e0 fuel = e"
  using assms
proof (induction fuel arbitrary: e0)
  case 0
  then show ?case by simp
next
  case (Suc fuel)
  show ?case
  proof (cases "\<bar>x\<bar> < pow2 (e0 + 1)")
    case True
    have "\<not> e0 < e"
    proof
      assume "e0 < e"
      then have "pow2 (e0 + 1) \<le> pow2 e" by (intro pow2_mono) simp
      with True Suc.prems(1) show False by simp
    qed
    with Suc.prems(3) True show ?thesis by simp
  next
    case False
    have "e0 < e"
    proof (rule ccontr)
      assume "\<not> e0 < e"
      then have "pow2 (e + 1) \<le> pow2 (e0 + 1)" by (intro pow2_mono) simp
      with False Suc.prems(2) show False by simp
    qed
    then have "expo_from x (e0 + 1) fuel = e"
      using Suc.prems by (intro Suc.IH) auto
    with False show ?thesis by simp
  qed
qed

lemma expo_eq:
  assumes "pow2 e \<le> \<bar>x\<bar>" and "\<bar>x\<bar> < pow2 (e + 1)" and "- 1022 \<le> e" and "e \<le> 1024"
  shows "expo x = e"
  unfolding expo_def using assms by (intro expo_from_eq) auto

lemma round64_eval:
  assumes "pow2 e \<le> \<bar>x\<bar>" and "\<bar>x\<bar> < pow2 (e + 1)" and "- 1022 \<le> e" and "e \<le> 1024"
    and "round_half_even (x / pow2 (e - 52)) = n"
    and "\<bar>real_of_int n * pow2 (e - 52)\<bar> < pow2 1024"
  shows "round64 x = Fin (real_of_int n * pow2 (e - 52))"
proof -
  have "expo x = e" using assms(1-4) by (rule expo_eq)
  then show ?thesis
    using assms(5,6) by (auto simp: round64_def Let_def)
qed

lemma round64_d01: "round64 d01 = Fin d01"
proof -
  have "round64 d01 = Fin (real_of_int 7205759403792794 * pow2 (- 4 - 52))"
    by (rule round64_eval) (simp_all add: d01_def pow2_def round_half_even_def Let_def)
  then show ?thesis by (simp add: d01_def pow2_def)
qed

lemma round64_2d01: "round64 (d01 + d01) = Fin (2 * d01)"
proof -
  have "round64 (d01 + d01) = Fin (real_of_int 7205759403792794 * pow2 (- 3 - 52))"
    by (rule round64_eval) (simp_all add: d01_def pow2_def round_half_even_def Let_def)
  then show ?thesis by (simp add: d01_def pow2_def)
qed

lemma round64_3d01: "round64 (2 * d01 + d01) = Fin d03"
proof -
  have "round64 (2 * d01 + d01) = Fin (real_of_int 5404319552844596 * pow2 (- 2 - 52))"
    by (rule round64_eval) (simp_all add: d01_def pow2_def round_half_even_def Let_def)
  then show ?thesis by (simp add: pow2_def d03_def)
qed

lemma round64_3: "round64 3 = Fin 3"
proof -
  have "round64 3 = Fin (real_of_int 6755399441055744 * pow2 (1 - 52))"
    by (rule round64_eval) (simp_all add: pow2_def round_half_even_def Let_def)
  then show ?thesis by (simp add: pow2_def)
qed

lemma round64_mean: "round64 (d03 / 3) = Fin d01_up"
proof -
  have "round64 (d03 / 3) = Fin (real_of_int 7205759403792795 * pow2 (- 4 - 52))"
    by (rule round64_eval) (simp_all add: d03_def pow2_def round_half_even_def Let_def)
  then show ?thesis by (simp add: pow2_def d01_up_def)
qed

lemma flat01_sum: "py_sum [Fin d01, Fin d01, Fin d01] = Fin d03"
  by (simp only: py_sum_def foldl.simps fl_add.simps add_0 round64_d01 round64_2d01
      round64_3d01)

lemma flat01_mean: "py_truediv (py_sum [Fin d01, Fin d01, Fin d01]) 3 = Inr (Fin d01_up)"
  by (simp add: py_truediv_def flat01_sum round64_3 round64_mean)

lemma flat01_ma: "compute_ma \<lparr>ma_period = 3\<rparr> flat01 = Inr (Some (Fin d01_up))"
  by (simp add: compute_ma_def flat01_def py_slice_from_def Let_def numeral_3_eq_3
      flat01_mean [unfolded numeral_3_eq_3])

lemma flat01_short: "generate \<lparr>ma_period = 3\<rparr> flat01 = Inr SHORT"
  by (simp add: generate_def flat01_ma)
    (simp add: flat01_def d01_def d01_up_def numeral_3_eq_3)

lemma flat01_exact_mean: "spec_mean_last 3 flat01 = close (last flat01)"
  by (simp add: spec_mean_last_def flat01_def numeral_3_eq_3)

lemma py_slice_last: "0 < p \<Longrightarrow> p \<le> int (length xs) \<Longrightarrow>
    py_slice_from (- p) xs = drop (length xs - nat p) xs"
  by (simp add: py_slice_from_def Let_def nat_diff_distrib' max_def)

lemma map_drop_nth:
  "k \<le> length xs \<Longrightarrow> map f (drop k xs) = map (\<lambda>i. f (xs ! i)) [k ..< length xs]"
  by (rule nth_equalityI) auto

lemma fl_lt_irrefl: "\<not> fl_lt a a"
  by (cases a) simp_all

lemma fl_lt_asym: "fl_lt a b \<Longrightarrow> \<not> fl_lt b a"
  by (cases a; cases b) simp_all

lemma compute_ma_float_mean:
  assumes "2 \<le> ma_period self" and "ma_period self \<le> int (length cs)"
  shows "compute_ma self cs = Inr (Some (float_mean_last (nat (ma_period self)) cs))"
proof -
  let ?p = "nat (ma_period self)"
  define closes where "closes = map (\<lambda>c. Fin (close c)) (drop (length cs - ?p) cs)"
  have p: "?p \<le> length cs" "0 < ?p" "int ?p = ma_period self" using assms by auto
  have sl: "py_slice_from (- ma_period self) cs = drop (length cs - ?p) cs"
    using assms by (intro py_slice_last) auto
  have m: "closes = map (\<lambda>i. Fin (close (cs ! i))) [length cs - ?p ..< length cs]"
    unfolding closes_def by (rule map_drop_nth) simp
  have len: "int (length closes) = ma_period self"
    using p by (simp add: closes_def)
  have nz: "ma_period self \<noteq> 0" using assms by simp
  have "compute_ma self cs =
      (case py_truediv (py_sum closes) (int (length closes)) of
         Inl e \<Rightarrow> Inl e | Inr ma \<Rightarrow> Inr (Some ma))"
    using assms unfolding compute_ma_def sl closes_def Let_def by simp
  also have "\<dots> = Inr (Some (fl_div (py_sum closes) (round64 (real_of_int (ma_period self)))))"
    unfolding len py_truediv_def using nz by simp
  also have "\<dots> = Inr (Some (float_mean_last ?p cs))"
    unfolding float_mean_last_def py_sum_def m using p by simp
  finally show ?thesis .
qed

lemma flat01_float_mean: "float_mean_last 3 flat01 = Fin d01_up"
proof -
  have "compute_ma \<lparr>ma_period = 3\<rparr> flat01 = Inr (Some (float_mean_last 3 flat01))"
    using compute_ma_float_mean [of "\<lparr>ma_period = 3\<rparr>" flat01] by (simp add: flat01_def)
  then show ?thesis by (simp add: flat01_ma)
qed

text \<open>
  Claim C4 fails as stated. Three candles close at 0.1, and the period is 3. The
  arithmetic mean of the three closes is the last close, so the claim asks for HOLD. The
  code adds the closes in double arithmetic, where \<open>0.1 + 0.1 + 0.1\<close> rounds to
  \<open>0.30000000000000004\<close>, and divides by 3, which gives \<open>0.10000000000000002\<close>: the
  last close is below this \<open>ma\<close>, and \<open>generate\<close> returns SHORT.
\<close>

theorem exact_mean_counterexample:
  "new_strategy 3 = Inr \<lparr>ma_period = 3\<rparr>
   \<and> flat01 \<noteq> [] \<and> \<not> int (length flat01) < 3
   \<and> close (last flat01) = spec_mean_last 3 flat01
   \<and> generate \<lparr>ma_period = 3\<rparr> flat01 = Inr SHORT"
  by (simp add: new_strategy_def flat01_short flat01_exact_mean)
    (simp add: flat01_def)

text \<open>
  Claim C4, amended. For a strategy with period at least 2 (the only ones the constructor
  builds) \<open>generate\<close> raises nothing; it is HOLD on an empty history and on one shorter
  than the period; otherwise, with \<open>ma\<close> the mean of the closes of the last \<open>period\<close>
  candles as double arithmetic gives it (the closes added from the first of the window
  on, every sum rounded, the last sum divided by the period and rounded) and
  \<open>last_close\<close> the close of the final candle, it is LONG when \<open>last_close > ma\<close>, SHORT
  when \<open>last_close < ma\<close>, and HOLD otherwise, so when \<open>last_close = ma\<close>.
\<close>

theorem generate_spec:
  assumes "new_strategy p = Inr self"
  shows "generate self cs =
      Inr (if cs = [] \<or> int (length cs) < p then HOLD
           else if fl_lt (float_mean_last (nat p) cs) (Fin (close (last cs))) then LONG
           else if fl_lt (Fin (close (last cs))) (float_mean_last (nat p) cs) then SHORT
           else HOLD)
    \<and> (cs \<noteq> [] \<and> p \<le> int (length cs)
         \<and> float_mean_last (nat p) cs = Fin (close (last cs))
       \<longrightarrow> generate self cs = Inr HOLD)"
proof -
  from assms have p: "2 \<le> p" "ma_period self = p"
    by (auto simp: new_strategy_def split: if_splits)
  have g: "generate self cs =
      Inr (if cs = [] \<or> int (length cs) < p then HOLD
           else if fl_lt (float_mean_last (nat p) cs) (Fin (close (last cs))) then LONG
           else if fl_lt (Fin (close (last cs))) (float_mean_last (nat p) cs) then SHORT
           else HOLD)"
  proof (cases "cs = [] \<or> int (length cs) < p")
    case True
    then show ?thesis
      using p by (auto simp: generate_def compute_ma_def)
  next
    case False
    then have "compute_ma self cs = Inr (Some (float_mean_last (nat p) cs))"
      using compute_ma_float_mean [of self cs] p by simp
    with False show ?thesis
      by (simp add: generate_def Let_def)
  qed
  show ?thesis
    unfolding g by (auto simp: fl_lt_irrefl)
qed

theorem generate_spec_witness:
  "new_strategy 3 = Inr \<lparr>ma_period = 3\<rparr>
   \<and> float_mean_last 3 flat01 = Fin d01_up
   \<and> close (last flat01) = d01 \<and> d01 < d01_up
   \<and> generate \<lparr>ma_period = 3\<rparr> flat01 = Inr SHORT"
proof -
  have h: "new_strategy 3 = Inr \<lparr>ma_period = 3\<rparr>"
    by (simp add: new_strategy_def)
  have l: "close (last flat01) = d01" "flat01 \<noteq> []" "length flat01 = 3"
    by (simp_all add: flat01_def numeral_3_eq_3)
  have lt: "d01 < d01_up" by (simp add: d01_def d01_up_def)
  from generate_spec [OF h, of flat01]
  have "generate \<lparr>ma_period = 3\<rparr> flat01 = Inr SHORT"
    using lt by (simp add: l flat01_float_mean)
  with h l lt show ?thesis
    by (simp add: flat01_float_mean)
qed

section \<open>Properties of the order guard\<close>

lemma submissions_call_client:
  "submissions (call_client c self) = submissions self @ (if is_submission c then [c] else [])"
  by (simp add: submissions_def call_client_def)

lemma submissions_record_order [simp]:
  "submissions (record_order self side t) = submissions self"
  by (simp add: submissions_def record_order_def)

lemma record_order_fields [simp]:
  "last_order_time (record_order self side t) = (last_order_time self)(side \<mapsto> t)"
  "order_cooldown_seconds (record_order self side t) = order_cooldown_seconds self"
  "symbol (record_order self side t) = symbol self"
  "position_size (record_order self side t) = position_size self"
  by (simp_all add: record_order_def)

lemma call_client_fields [simp]:
  "last_order_time (call_client c self) = last_order_time self"
  "order_cooldown_seconds (call_client c self) = order_cooldown_seconds self"
  "symbol (call_client c self) = symbol self"
  "position_size (call_client c self) = position_size self"
  by (simp_all add: call_client_def)

lemma is_on_cooldown_call_client [simp]:
  "is_on_cooldown (call_client c self) side t = is_on_cooldown self side t"
  by (simp add: is_on_cooldown_def)

lemma is_on_cooldown_mono:
  "\<not> is_on_cooldown self side t \<Longrightarrow> t \<le> t' \<Longrightarrow> \<not> is_on_cooldown self side t'"
  by (simp add: is_on_cooldown_def Let_def)

lemma sublist_in_append: "sublist xs b \<Longrightarrow> sublist xs (a @ b @ c)"
  by (auto simp: sublist_def) (metis append.assoc)

lemma cooldown_in_message: "sublist ''cooldown'' (cooldown_msg side k)"
  unfolding cooldown_msg_def
proof -
  define n where "n = str_int k"
  have "'': cooldown active ('' @ n @ ''s)'' = '': '' @ ''cooldown'' @ ('' active ('' @ n @ ''s)'')"
    by simp
  then have "sublist ''cooldown'' ('': cooldown active ('' @ n @ ''s)'')"
    by (metis sublist_appendI)
  then show "sublist ''cooldown''
      (''Skipping '' @ side @ '': cooldown active ('' @ str_int k @ ''s)'')"
    unfolding n_def by (metis sublist_in_append append_Nil2)
qed

text \<open>The five ways through execute for a signal other than HOLD.\<close>

lemma execute_cases:
  assumes "signal \<noteq> HOLD"
  shows "execute self env signal =
    (let self1 = call_client (GetOpenOrders (symbol self)) self; side = side_of signal in
     case open_orders_reply env of
       Inl (BinanceClientError m r) \<Rightarrow>
         (Inr \<lparr>success = False, order_id = None,
               message = open_orders_msg side (symbol self),
               response = None\<rparr>, self1)
     | Inl e \<Rightarrow> (Inl e, self1)
     | Inr orders \<Rightarrow>
         if orders \<noteq> [] then
           (Inr \<lparr>success = False, order_id = None,
               message = open_orders_msg side (symbol self),
               response = None\<rparr>, self1)
         else if is_on_cooldown self side (now_cooldown env) then
           (Inr \<lparr>success = False, order_id = None,
                 message = cooldown_msg side (order_cooldown_seconds self),
                 response = None\<rparr>, self1)
         else
           let self2 = call_client (PlaceMarketOrder (symbol self) side (position_size self)) self1
           in case place_order_reply env of
                Inr result \<Rightarrow>
                  (Inr \<lparr>success = True, order_id = Some (order_id_of result),
                        message = ''Order placed: '' @ order_id_of result,
                        response = Some (ReplyDict result)\<rparr>,
                   record_order self2 side (now_record env))
              | Inl (BinanceClientError m r) \<Rightarrow>
                  (Inr \<lparr>success = False, order_id = None, message = m,
                        response = map_option HttpResponse r\<rparr>, self2)
              | Inl e \<Rightarrow> (Inl e, self2))"
  using assms
  by (auto simp: execute_def has_open_orders_def side_of_def Let_def call_client_def
      is_on_cooldown_def open_orders_msg_def cooldown_msg_def split: sum.splits exn.splits)

lemma execute_success_state:
  assumes "signal \<noteq> HOLD" and "fst (execute self env signal) = Inr r" and "success r"
  shows "snd (execute self env signal) =
    record_order
      (call_client (PlaceMarketOrder (symbol self) (side_of signal) (position_size self))
         (call_client (GetOpenOrders (symbol self)) self))
      (side_of signal) (now_record env)"
  using assms
  by (auto simp: execute_cases Let_def split: sum.splits exn.splits if_splits)

lemma execute_on_cooldown_submits_nothing:
  assumes "signal \<noteq> HOLD" and "is_on_cooldown self (side_of signal) (now_cooldown env)"
  shows "submissions (snd (execute self env signal)) = submissions self"
  using assms
  by (auto simp: execute_cases Let_def submissions_call_client is_submission_def
      split: sum.splits exn.splits)

lemma demo_manager_fields:
  "symbol demo_manager = ''BTCUSDT''" "position_size demo_manager = 1 / 1000"
  "order_cooldown_seconds demo_manager = 60" "last_order_time demo_manager = Map.empty"
  "calls (client demo_manager) = []"
  by (simp_all add: demo_manager_def new_order_manager_def)

lemma demo_first:
  "execute demo_manager (env_ok 1000 1001) LONG =
    (Inr \<lparr>success = True, order_id = Some ''12345'', message = ''Order placed: 12345'',
          response = Some (ReplyDict demo_reply)\<rparr>,
     demo_manager\<lparr>client := \<lparr>calls = [GetOpenOrders ''BTCUSDT'',
                                      PlaceMarketOrder ''BTCUSDT'' ''BUY'' (1 / 1000)]\<rparr>,
                  last_order_time := [''BUY'' \<mapsto> 1001]\<rparr>)"
  by (simp add: execute_cases env_ok_def demo_manager_def new_order_manager_def side_of_def
      call_client_def is_on_cooldown_def record_order_def order_id_of_def demo_reply_def
      Let_def)

text \<open>
  Claim C1. For either side: if an \<open>execute\<close> call with a signal other than HOLD
  returns a successful result, having recorded its order at time \<open>now_record env1\<close>, then
  a second \<open>execute\<close> of the same signal whose cooldown check reads a time less than
  \<open>order_cooldown_seconds\<close> later, with no open orders reported, returns a failed
  result whose message contains "cooldown" and submits nothing: the two calls submit
  exactly one order.
\<close>

theorem cooldown_blocks_second_order:
  assumes "signal \<noteq> HOLD"
    and "execute self env1 signal = (Inr r1, self1)" and "success r1"
    and "open_orders_reply env2 = Inr []"
    and "now_cooldown env2 - now_record env1 < real_of_int (order_cooldown_seconds self)"
  shows "\<exists>r2 self2. execute self1 env2 signal = (Inr r2, self2) \<and> \<not> success r2
           \<and> sublist ''cooldown'' (message r2)
           \<and> submissions self2 = submissions self1
           \<and> submissions self1 = submissions self
                @ [PlaceMarketOrder (symbol self) (side_of signal) (position_size self)]"
proof -
  let ?side = "side_of signal"
  let ?s1 = "call_client (GetOpenOrders (symbol self)) self"
  let ?s2 = "call_client (PlaceMarketOrder (symbol self) ?side (position_size self)) ?s1"
  from assms(1-3) have s1: "self1 = record_order ?s2 ?side (now_record env1)"
    by (auto simp: execute_cases Let_def split: sum.splits exn.splits if_splits)
  have lt: "last_order_time self1 ?side = Some (now_record env1)"
    and cd: "order_cooldown_seconds self1 = order_cooldown_seconds self"
    by (simp_all add: s1 record_order_def call_client_def)
  have on: "is_on_cooldown self1 ?side (now_cooldown env2)"
    using assms(5) by (simp add: is_on_cooldown_def lt cd)
  have subs: "submissions self1 = submissions self
      @ [PlaceMarketOrder (symbol self) ?side (position_size self)]"
    by (simp add: s1 submissions_call_client is_submission_def)
  show ?thesis
    using assms(1,4) on subs
    by (simp add: execute_cases Let_def cooldown_in_message submissions_call_client
        is_submission_def)
qed

theorem cooldown_blocks_second_order_witness:
  "LONG \<noteq> HOLD
   \<and> success (projr (fst (execute demo_manager (env_ok 1000 1001) LONG)))
   \<and> open_orders_reply (env_ok 1030 1031) = Inr []
   \<and> now_cooldown (env_ok 1030 1031) - now_record (env_ok 1000 1001)
       < real_of_int (order_cooldown_seconds demo_manager)
   \<and> (\<exists>r2 self2. execute (snd (execute demo_manager (env_ok 1000 1001) LONG))
          (env_ok 1030 1031) LONG = (Inr r2, self2) \<and> \<not> success r2
        \<and> sublist ''cooldown'' (message r2)
        \<and> length (submissions self2) = length (submissions demo_manager) + 1)"
proof -
  have h1: "LONG \<noteq> HOLD" by simp
  have h3: "success \<lparr>success = True, order_id = Some ''12345'',
      message = ''Order placed: 12345'', response = Some (ReplyDict demo_reply)\<rparr>" by simp
  have h4: "open_orders_reply (env_ok 1030 1031) = Inr []" by (simp add: env_ok_def)
  have h5: "now_cooldown (env_ok 1030 1031) - now_record (env_ok 1000 1001)
       < real_of_int (order_cooldown_seconds demo_manager)"
    by (simp add: env_ok_def demo_manager_def new_order_manager_def)
  from cooldown_blocks_second_order [OF h1 demo_first h3 h4 h5]
  show ?thesis
    using h4 h5 by (auto simp: demo_first)
qed

text \<open>
  Claim C5. For a signal other than HOLD, when the open-orders query raises the exchange
  client's error, \<open>execute\<close> returns a failed result, submits no order, and does exactly
  what it does when the query reports open orders.
\<close>

theorem open_orders_failure_is_fail_safe:
  assumes "signal \<noteq> HOLD" and "open_orders_reply env = Inl (BinanceClientError m r)"
  shows "(\<exists>res. fst (execute self env signal) = Inr res \<and> \<not> success res)
       \<and> submissions (snd (execute self env signal)) = submissions self
       \<and> (\<forall>orders. orders \<noteq> [] \<longrightarrow>
             execute self env signal = execute self (env\<lparr>open_orders_reply := Inr orders\<rparr>) signal)"
  using assms
  by (simp add: execute_cases Let_def submissions_call_client is_submission_def)

theorem open_orders_failure_is_fail_safe_witness:
  "LONG \<noteq> HOLD
   \<and> (\<exists>res. fst (execute demo_manager
          ((env_ok 1000 1001)\<lparr>open_orders_reply := Inl (BinanceClientError ''API error'' None)\<rparr>)
          LONG) = Inr res \<and> \<not> success res)
   \<and> submissions (snd (execute demo_manager
          ((env_ok 1000 1001)\<lparr>open_orders_reply := Inl (BinanceClientError ''API error'' None)\<rparr>)
          LONG)) = []
   \<and> execute demo_manager
          ((env_ok 1000 1001)\<lparr>open_orders_reply := Inl (BinanceClientError ''API error'' None)\<rparr>)
          LONG
       = execute demo_manager ((env_ok 1000 1001)\<lparr>open_orders_reply := Inr [demo_reply]\<rparr>) LONG"
proof -
  let ?env = "(env_ok 1000 1001)\<lparr>open_orders_reply := Inl (BinanceClientError ''API error'' None)\<rparr>"
  have h1: "LONG \<noteq> HOLD" by simp
  have h2: "open_orders_reply ?env = Inl (BinanceClientError ''API error'' None)" by simp
  have e: "submissions demo_manager = []"
    by (simp add: submissions_def demo_manager_def new_order_manager_def)
  have n: "[demo_reply] \<noteq> []" by simp
  from open_orders_failure_is_fail_safe [OF h1 h2, of demo_manager] e n
  show ?thesis by simp
qed

text \<open>
  Claim C6. The cooldown time of a side is written exactly when an order on that side is
  submitted and accepted; on every other way out of \<open>execute\<close> (HOLD, open orders, a
  failed query, cooldown, a rejected or failing submission) the cooldown state is as
  before. So after a rejected submission a following call for the same side, its clock
  not behind the first call's, is not on cooldown and submits again.
\<close>

theorem cooldown_recorded_only_on_success:
  "last_order_time (snd (execute self env signal)) =
     (if signal \<noteq> HOLD \<and> open_orders_reply env = Inr []
         \<and> \<not> is_on_cooldown self (side_of signal) (now_cooldown env)
         \<and> (\<exists>result. place_order_reply env = Inr result)
      then (last_order_time self)(side_of signal \<mapsto> now_record env)
      else last_order_time self)
   \<and> (signal \<noteq> HOLD \<longrightarrow>
        (\<exists>res. fst (execute self env signal) = Inr res \<and> success res)
        = (open_orders_reply env = Inr []
           \<and> \<not> is_on_cooldown self (side_of signal) (now_cooldown env)
           \<and> (\<exists>result. place_order_reply env = Inr result)))
   \<and> (signal \<noteq> HOLD \<and> open_orders_reply env = Inr []
        \<and> \<not> is_on_cooldown self (side_of signal) (now_cooldown env)
        \<and> place_order_reply env = Inl (BinanceClientError m r)
        \<and> now_cooldown env \<le> now_cooldown env' \<and> open_orders_reply env' = Inr []
      \<longrightarrow> \<not> is_on_cooldown (snd (execute self env signal)) (side_of signal) (now_cooldown env')
        \<and> submissions (snd (execute (snd (execute self env signal)) env' signal))
            = submissions (snd (execute self env signal))
              @ [PlaceMarketOrder (symbol self) (side_of signal) (position_size self)])"
proof (intro conjI impI)
  show "last_order_time (snd (execute self env signal)) =
     (if signal \<noteq> HOLD \<and> open_orders_reply env = Inr []
         \<and> \<not> is_on_cooldown self (side_of signal) (now_cooldown env)
         \<and> (\<exists>result. place_order_reply env = Inr result)
      then (last_order_time self)(side_of signal \<mapsto> now_record env)
      else last_order_time self)"
  proof (cases "signal = HOLD")
    case True
    then show ?thesis by (simp add: execute_def)
  next
    case False
    then show ?thesis
      by (auto simp: execute_cases Let_def split: sum.splits exn.splits)
  qed
next
  assume "signal \<noteq> HOLD"
  then show "(\<exists>res. fst (execute self env signal) = Inr res \<and> success res)
        = (open_orders_reply env = Inr []
           \<and> \<not> is_on_cooldown self (side_of signal) (now_cooldown env)
           \<and> (\<exists>result. place_order_reply env = Inr result))"
    by (auto simp: execute_cases Let_def split: sum.splits exn.splits)
next
  assume a: "signal \<noteq> HOLD \<and> open_orders_reply env = Inr []
        \<and> \<not> is_on_cooldown self (side_of signal) (now_cooldown env)
        \<and> place_order_reply env = Inl (BinanceClientError m r)
        \<and> now_cooldown env \<le> now_cooldown env' \<and> open_orders_reply env' = Inr []"
  let ?s1 = "snd (execute self env signal)"
  from a have s1: "?s1 = call_client
      (PlaceMarketOrder (symbol self) (side_of signal) (position_size self))
      (call_client (GetOpenOrders (symbol self)) self)"
    by (simp add: execute_cases Let_def)
  from a have "\<not> is_on_cooldown self (side_of signal) (now_cooldown env')"
    using is_on_cooldown_mono by blast
  then show free: "\<not> is_on_cooldown ?s1 (side_of signal) (now_cooldown env')"
    by (simp add: s1)
  have f: "symbol ?s1 = symbol self" "position_size ?s1 = position_size self"
    by (simp_all add: s1)
  from a free show "submissions (snd (execute ?s1 env' signal))
            = submissions ?s1
              @ [PlaceMarketOrder (symbol self) (side_of signal) (position_size self)]"
    by (simp add: execute_cases [of signal ?s1] Let_def f submissions_call_client
        is_submission_def split: sum.splits exn.splits)
qed

theorem cooldown_recorded_only_on_success_witness:
  "LONG \<noteq> HOLD \<and> open_orders_reply (env_rejected 1000) = Inr []
   \<and> \<not> is_on_cooldown demo_manager (side_of LONG) (now_cooldown (env_rejected 1000))
   \<and> place_order_reply (env_rejected 1000)
       = Inl (BinanceClientError ''Insufficient balance'' None)
   \<and> now_cooldown (env_rejected 1000) \<le> now_cooldown (env_ok 1000 1001)
   \<and> open_orders_reply (env_ok 1000 1001) = Inr []
   \<and> last_order_time (snd (execute demo_manager (env_rejected 1000) LONG)) = Map.empty
   \<and> \<not> is_on_cooldown (snd (execute demo_manager (env_rejected 1000) LONG)) (side_of LONG)
         (now_cooldown (env_ok 1000 1001))
   \<and> submissions (snd (execute (snd (execute demo_manager (env_rejected 1000) LONG))
         (env_ok 1000 1001) LONG))
      = submissions (snd (execute demo_manager (env_rejected 1000) LONG))
        @ [PlaceMarketOrder ''BTCUSDT'' ''BUY'' (1 / 1000)]"
proof -
  have h: "LONG \<noteq> HOLD \<and> open_orders_reply (env_rejected 1000) = Inr []
      \<and> \<not> is_on_cooldown demo_manager (side_of LONG) (now_cooldown (env_rejected 1000))
      \<and> place_order_reply (env_rejected 1000)
          = Inl (BinanceClientError ''Insufficient balance'' None)
      \<and> now_cooldown (env_rejected 1000) \<le> now_cooldown (env_ok 1000 1001)
      \<and> open_orders_reply (env_ok 1000 1001) = Inr []"
    by (simp add: env_rejected_def env_ok_def is_on_cooldown_def demo_manager_fields)
  note t = cooldown_recorded_only_on_success [of demo_manager "env_rejected 1000" LONG
      "''Insufficient balance''" None "env_ok 1000 1001"]
  from t h have a: "last_order_time (snd (execute demo_manager (env_rejected 1000) LONG))
      = Map.empty"
    by (simp add: demo_manager_fields)
  from t h have b: "\<not> is_on_cooldown (snd (execute demo_manager (env_rejected 1000) LONG))
      (side_of LONG) (now_cooldown (env_ok 1000 1001))"
    by blast
  from t h have c: "submissions (snd (execute (snd (execute demo_manager (env_rejected 1000) LONG))
         (env_ok 1000 1001) LONG))
      = submissions (snd (execute demo_manager (env_rejected 1000) LONG))
        @ [PlaceMarketOrder (symbol demo_manager) (side_of LONG) (position_size demo_manager)]"
    by blast
  from h a b c show ?thesis
    by (simp add: demo_manager_fields side_of_def)
qed

text \<open>
  Claim C10. Whatever the signal, if the exchange client fails only with its typed error,
  \<open>execute\<close> returns an \<open>OrderResult\<close> and raises nothing; a failed open-orders query
  gives a failed result with the skip message, a rejected submission a failed result
  carrying the error's message.
\<close>

theorem execute_never_raises:
  assumes "\<forall>e. open_orders_reply env = Inl e \<longrightarrow> is_client_error e"
    and "\<forall>e. place_order_reply env = Inl e \<longrightarrow> is_client_error e"
  shows "\<exists>res. fst (execute self env signal) = Inr res
     \<and> (signal \<noteq> HOLD \<and> isl (open_orders_reply env) \<longrightarrow>
          \<not> success res
          \<and> message res = ''Skipping '' @ side_of signal @ '': open orders exist for ''
                            @ symbol self)
     \<and> (\<forall>m r. signal \<noteq> HOLD \<and> open_orders_reply env = Inr []
          \<and> \<not> is_on_cooldown self (side_of signal) (now_cooldown env)
          \<and> place_order_reply env = Inl (BinanceClientError m r) \<longrightarrow>
          \<not> success res \<and> message res = m)"
proof (cases "signal = HOLD")
  case True
  then show ?thesis by (simp add: execute_def)
next
  case False
  show ?thesis
  proof (cases "open_orders_reply env")
    case (Inl e)
    with assms(1) obtain m r where "e = BinanceClientError m r"
      by (cases e) (auto simp: is_client_error_def)
    with Inl False show ?thesis
      by (simp add: execute_cases Let_def open_orders_msg_def)
  next
    case (Inr orders)
    show ?thesis
    proof (cases "place_order_reply env")
      case (Inl e)
      with assms(2) obtain m r where "e = BinanceClientError m r"
        by (cases e) (auto simp: is_client_error_def)
      with Inl Inr False show ?thesis
        by (simp add: execute_cases Let_def)
    next
      case r: (Inr result)
      with Inr False show ?thesis
        by (simp add: execute_cases Let_def)
    qed
  qed
qed

theorem execute_never_raises_witness:
  "open_orders_reply (env_query_failed 1000) = Inl (BinanceClientError ''API error'' None)
   \<and> is_client_error (BinanceClientError ''API error'' None)
   \<and> place_order_reply (env_query_failed 1000) = Inr demo_reply
   \<and> (\<exists>res. fst (execute demo_manager (env_query_failed 1000) SHORT) = Inr res
        \<and> \<not> success res
        \<and> message res = ''Skipping SELL: open orders exist for BTCUSDT'')"
proof -
  have r: "open_orders_reply (env_query_failed 1000) = Inl (BinanceClientError ''API error'' None)"
    "is_client_error (BinanceClientError ''API error'' None)"
    "place_order_reply (env_query_failed 1000) = Inr demo_reply"
    by (simp_all add: env_query_failed_def is_client_error_def)
  have h1: "\<forall>e. open_orders_reply (env_query_failed 1000) = Inl e \<longrightarrow> is_client_error e"
    using r by simp
  have h2: "\<forall>e. place_order_reply (env_query_failed 1000) = Inl e \<longrightarrow> is_client_error e"
    using r by simp
  have i: "SHORT \<noteq> HOLD \<and> isl (open_orders_reply (env_query_failed 1000))"
    using r by simp
  from execute_never_raises [OF h1 h2, of demo_manager SHORT] i
  have "\<exists>res. fst (execute demo_manager (env_query_failed 1000) SHORT) = Inr res
        \<and> \<not> success res
        \<and> message res = ''Skipping '' @ side_of SHORT @ '': open orders exist for ''
                            @ symbol demo_manager"
    by blast
  with r show ?thesis
    by (simp add: side_of_def demo_manager_fields)
qed

section \<open>Properties of overlapping \<open>execute\<close> calls\<close>

lemma run_alone_execute:
  "run_alone env signal self
     = (Finished (fst (execute self env signal)), snd (execute self env signal))"
  by (auto simp: run_alone_def execute_def has_open_orders_def Let_def
      split: sum.splits exn.splits bool.splits)

lemma run_two_serial:
  "run_two envA envB [False, False, False, True, True, True] (AtStart sa, AtStart sb, self)
     = (case run_alone envA sa self of (ta, s1) \<Rightarrow>
        case run_alone envB sb s1 of (tb, s2) \<Rightarrow> (ta, tb, s2))"
  by (simp add: run_alone_def split: prod.splits del: task_step.simps)

text \<open>
  Claim C3 fails. Two \<open>execute(LONG)\<close> tasks on one manager are resumed in turn. Both
  queries for open orders are answered before either order is placed, and both cooldown
  checks are made before either order is recorded: both tasks pass both gates, both
  submit, and both return a successful result.
\<close>

theorem overlapping_calls_both_submit_counterexample:
  "fst overlap_run = Finished (Inr demo_placed)
   \<and> fst (snd overlap_run) = Finished (Inr demo_placed)
   \<and> submissions (snd (snd overlap_run))
       = [PlaceMarketOrder ''BTCUSDT'' ''BUY'' (1 / 1000),
          PlaceMarketOrder ''BTCUSDT'' ''BUY'' (1 / 1000)]
   \<and> calls (client (snd (snd overlap_run)))
       = [GetOpenOrders ''BTCUSDT'', GetOpenOrders ''BTCUSDT'',
          PlaceMarketOrder ''BTCUSDT'' ''BUY'' (1 / 1000),
          PlaceMarketOrder ''BTCUSDT'' ''BUY'' (1 / 1000)]"
  by (simp add: overlap_run_def demo_placed_def env_ok_def demo_manager_def
      new_order_manager_def call_client_def is_on_cooldown_def record_order_def
      order_id_of_def demo_reply_def submissions_def is_submission_def Let_def)

text \<open>
  Claim C3, amended. \<open>execute\<close> takes no lock; what it guarantees, it guarantees to
  calls that do not overlap. When the second task is resumed only after the first is
  done, the run is the two \<open>execute\<close> calls one after the other, and if the first
  submitted an order and the second, for the same signal, checks the cooldown less than
  \<open>order_cooldown_seconds\<close> after the first recorded it, the two of them submit
  exactly one order.
\<close>

theorem calls_in_turn_are_serialized:
  "run_two envA envB [False, False, False, True, True, True] (AtStart sa, AtStart sb, self)
     = (Finished (fst (execute self envA sa)),
        Finished (fst (execute (snd (execute self envA sa)) envB sb)),
        snd (execute (snd (execute self envA sa)) envB sb))
   \<and> (sa \<noteq> HOLD \<and> sb = sa \<and> (\<exists>r. fst (execute self envA sa) = Inr r \<and> success r)
        \<and> now_cooldown envB - now_record envA < real_of_int (order_cooldown_seconds self)
      \<longrightarrow> submissions (snd (snd (run_two envA envB [False, False, False, True, True, True]
                (AtStart sa, AtStart sb, self))))
          = submissions self
            @ [PlaceMarketOrder (symbol self) (side_of sa) (position_size self)])"
proof (intro conjI impI)
  show run: "run_two envA envB [False, False, False, True, True, True]
      (AtStart sa, AtStart sb, self)
     = (Finished (fst (execute self envA sa)),
        Finished (fst (execute (snd (execute self envA sa)) envB sb)),
        snd (execute (snd (execute self envA sa)) envB sb))"
    by (simp only: run_two_serial run_alone_execute prod.case)
  assume a: "sa \<noteq> HOLD \<and> sb = sa \<and> (\<exists>r. fst (execute self envA sa) = Inr r \<and> success r)
        \<and> now_cooldown envB - now_record envA < real_of_int (order_cooldown_seconds self)"
  let ?s1 = "snd (execute self envA sa)"
  from a obtain r where r: "fst (execute self envA sa) = Inr r" "success r" by blast
  from a have s1: "?s1 = record_order
      (call_client (PlaceMarketOrder (symbol self) (side_of sa) (position_size self))
         (call_client (GetOpenOrders (symbol self)) self))
      (side_of sa) (now_record envA)"
    using execute_success_state [OF _ r] by blast
  have on: "is_on_cooldown ?s1 (side_of sa) (now_cooldown envB)"
    using a by (simp add: s1 is_on_cooldown_def)
  have "submissions (snd (execute ?s1 envB sa)) = submissions ?s1"
    using a on by (intro execute_on_cooldown_submits_nothing) auto
  also have "\<dots> = submissions self
      @ [PlaceMarketOrder (symbol self) (side_of sa) (position_size self)]"
    by (simp add: s1 submissions_call_client is_submission_def)
  finally show "submissions (snd (snd (run_two envA envB [False, False, False, True, True, True]
                (AtStart sa, AtStart sb, self))))
          = submissions self
            @ [PlaceMarketOrder (symbol self) (side_of sa) (position_size self)]"
    using a unfolding run by simp
qed

theorem calls_in_turn_are_serialized_witness:
  "LONG \<noteq> HOLD
   \<and> fst (execute demo_manager (env_ok 1000 1002) LONG) = Inr demo_placed
   \<and> success demo_placed
   \<and> now_cooldown (env_ok 1001 1003) - now_record (env_ok 1000 1002)
       < real_of_int (order_cooldown_seconds demo_manager)
   \<and> submissions (snd (snd (run_two (env_ok 1000 1002) (env_ok 1001 1003)
        [False, False, False, True, True, True] (AtStart LONG, AtStart LONG, demo_manager))))
      = [PlaceMarketOrder ''BTCUSDT'' ''BUY'' (1 / 1000)]"
proof -
  have f: "fst (execute demo_manager (env_ok 1000 1002) LONG) = Inr demo_placed"
    by (simp add: execute_cases env_ok_def demo_manager_def new_order_manager_def side_of_def
        call_client_def is_on_cooldown_def order_id_of_def demo_reply_def demo_placed_def
        Let_def)
  have s: "success demo_placed" by (simp add: demo_placed_def)
  have c: "now_cooldown (env_ok 1001 1003) - now_record (env_ok 1000 1002)
       < real_of_int (order_cooldown_seconds demo_manager)"
    by (simp add: env_ok_def demo_manager_fields)
  have e: "submissions demo_manager = []"
    by (simp add: submissions_def demo_manager_fields)
  note t = calls_in_turn_are_serialized [of "env_ok 1000 1002" "env_ok 1001 1003" LONG LONG
      demo_manager]
  from t f s c have "submissions (snd (snd (run_two (env_ok 1000 1002) (env_ok 1001 1003)
        [False, False, False, True, True, True] (AtStart LONG, AtStart LONG, demo_manager))))
      = submissions demo_manager
        @ [PlaceMarketOrder (symbol demo_manager) (side_of LONG) (position_size demo_manager)]"
    by blast
  with f s c show ?thesis
    by (simp add: e demo_manager_fields side_of_def)
qed

section \<open>Properties of the market data cache\<close>

lemma svc_call_fields [simp]:
  "cache (svc_call c self) = cache self"
  "files (svc_call c self) = files self"
  "svc_symbol (svc_call c self) = svc_symbol self"
  "timeframe (svc_call c self) = timeframe self"
  "calls (svc_client (svc_call c self)) = calls (svc_client self) @ [c]"
  by (simp_all add: svc_call_def)

lemma persist_candles_fields [simp]:
  "cache (persist_candles self cs ok) = cache self"
  "svc_client (persist_candles self cs ok) = svc_client self"
  "svc_symbol (persist_candles self cs ok) = svc_symbol self"
  "timeframe (persist_candles self cs ok) = timeframe self"
  by (simp_all add: persist_candles_def)

lemma update_fields [simp]:
  "candles (update_candles c cs t) = cs"
  "ticker_price (update_candles c cs t) = ticker_price c"
  "last_updated (update_candles c cs t) = t"
  "ttl_seconds (update_candles c cs t) = ttl_seconds c"
  "candles (update_ticker c p t) = candles c"
  "ticker_price (update_ticker c p t) = Some p"
  "last_updated (update_ticker c p t) = t"
  "ttl_seconds (update_ticker c p t) = ttl_seconds c"
  by (simp_all add: update_candles_def update_ticker_def)

lemma get_klines_cached:
  "\<not> klines_fetch_needed self env force \<Longrightarrow>
     get_klines self env limit force = (Inr (candles (cache self)), self)"
  by (simp add: get_klines_def klines_fetch_needed_def)

lemma get_klines_fetch:
  "klines_fetch_needed self env force \<Longrightarrow>
     get_klines self env limit force =
       (let self1 = svc_call (GetKlines (svc_symbol self) (timeframe self) limit) self
        in case bind_exn (kl_reply env) (map_exn from_binance) of
             Inl e \<Rightarrow> (Inl e, self1)
           | Inr cs \<Rightarrow>
               (Inr cs, persist_candles
                  (self1\<lparr>cache := update_candles (cache self) cs (kl_now_update env)\<rparr>)
                  cs (kl_write_ok env)))"
  by (auto simp: get_klines_def klines_fetch_needed_def bind_exn_def Let_def
      split: sum.splits)

lemma get_ticker_cached:
  "\<not> ticker_fetch_needed self env force \<Longrightarrow>
     get_ticker_price self env force = (Inr (the (ticker_price (cache self))), self)"
  by (simp add: get_ticker_price_def ticker_fetch_needed_def)

lemma get_ticker_fetch:
  "ticker_fetch_needed self env force \<Longrightarrow>
     get_ticker_price self env force =
       (let self1 = svc_call (GetTickerPrice (svc_symbol self)) self
        in case bind_exn (tk_reply env) (\<lambda>data. bind_exn (py_getitem data ''price'') as_float) of
             Inl e \<Rightarrow> (Inl e, self1)
           | Inr price \<Rightarrow>
               (Inr price,
                self1\<lparr>cache := update_ticker (cache self) price (tk_now_update env)\<rparr>))"
  by (auto simp: get_ticker_price_def ticker_fetch_needed_def bind_exn_def Let_def
      split: sum.splits)

lemma get_klines_calls:
  "calls (svc_client (snd (get_klines self env limit force))) =
     calls (svc_client self) @
       (if klines_fetch_needed self env force
        then [GetKlines (svc_symbol self) (timeframe self) limit] else [])"
  by (auto simp: get_klines_cached get_klines_fetch Let_def split: sum.splits)

lemma get_ticker_calls:
  "calls (svc_client (snd (get_ticker_price self env force))) =
     calls (svc_client self) @
       (if ticker_fetch_needed self env force then [GetTickerPrice (svc_symbol self)] else [])"
  by (auto simp: get_ticker_cached get_ticker_fetch Let_def split: sum.splits)

lemma get_klines_cache:
  "cache (snd (get_klines self env limit force)) =
     (case fst (get_klines self env limit force) of
        Inr cs \<Rightarrow> if klines_fetch_needed self env force
                  then update_candles (cache self) cs (kl_now_update env) else cache self
      | Inl e \<Rightarrow> cache self)"
  by (cases "klines_fetch_needed self env force")
    (auto simp: get_klines_cached get_klines_fetch Let_def split: sum.splits)

lemma get_ticker_cache:
  "cache (snd (get_ticker_price self env force)) =
     (case fst (get_ticker_price self env force) of
        Inr p \<Rightarrow> if ticker_fetch_needed self env force
                 then update_ticker (cache self) p (tk_now_update env) else cache self
      | Inl e \<Rightarrow> cache self)"
  by (cases "ticker_fetch_needed self env force")
    (auto simp: get_ticker_cached get_ticker_fetch Let_def split: sum.splits)

lemma get_klines_keeps_names:
  "svc_symbol (snd (get_klines self env limit force)) = svc_symbol self"
  "timeframe (snd (get_klines self env limit force)) = timeframe self"
  by (cases "klines_fetch_needed self env force";
      auto simp: get_klines_cached get_klines_fetch Let_def split: sum.splits)+

lemma get_ticker_keeps_names:
  "svc_symbol (snd (get_ticker_price self env force)) = svc_symbol self"
  "timeframe (snd (get_ticker_price self env force)) = timeframe self"
  by (cases "ticker_fetch_needed self env force";
      auto simp: get_ticker_cached get_ticker_fetch Let_def split: sum.splits)+

lemma klines_at_fields [simp]:
  "kl_now_check (klines_at t reply) = t" "kl_reply (klines_at t reply) = reply"
  "kl_now_update (klines_at t reply) = t" "kl_write_ok (klines_at t reply) = True"
  by (simp_all add: klines_at_def)

lemma ticker_at_fields [simp]:
  "tk_now_check (ticker_at t reply) = t" "tk_reply (ticker_at t reply) = reply"
  "tk_now_update (ticker_at t reply) = t"
  by (simp_all add: ticker_at_def)

lemma demo_parse: "map_exn from_binance demo_klines = Inr demo_candles"
  by (simp add: demo_klines_def demo_candles_def from_binance_def bind_exn_def py_item_def
      json_num_def)

lemma demo_ticker_price: "bind_exn (py_getitem demo_ticker ''price'') as_float = Inr 50100"
  by (simp add: demo_ticker_def py_getitem_def bind_exn_def json_num_def)

lemma demo_service_fields:
  "cache demo_service = \<lparr>candles = [], ticker_price = None, last_updated = 0, ttl_seconds = 30\<rparr>"
  "calls (svc_client demo_service) = []" "svc_symbol demo_service = ''BTCUSDT''"
  "timeframe demo_service = ''5m''"
  by (simp_all add: demo_service_def new_market_data_service_def)

lemma demo_first_fetch:
  "get_klines demo_service (klines_at 1000 (Inr demo_klines)) 10 False = (Inr demo_candles, service_1000)"
  "klines_fetch_needed demo_service (klines_at 1000 (Inr demo_klines)) False"
proof -
  show n: "klines_fetch_needed demo_service (klines_at 1000 (Inr demo_klines)) False"
    by (simp add: klines_fetch_needed_def demo_service_fields)
  show "get_klines demo_service (klines_at 1000 (Inr demo_klines)) 10 False
      = (Inr demo_candles, service_1000)"
    unfolding service_1000_def
    by (simp add: get_klines_fetch [OF n] bind_exn_def demo_parse Let_def)
qed

lemma service_1000_fields:
  "cache service_1000 = \<lparr>candles = demo_candles, ticker_price = None, last_updated = 1000,
      ttl_seconds = 30\<rparr>"
  "calls (svc_client service_1000) = [GetKlines ''BTCUSDT'' ''5m'' 10]"
  "svc_symbol service_1000 = ''BTCUSDT''" "timeframe service_1000 = ''5m''"
proof -
  have n: "klines_fetch_needed demo_service (klines_at 1000 (Inr demo_klines)) False"
    by (rule demo_first_fetch)
  show "cache service_1000 = \<lparr>candles = demo_candles, ticker_price = None, last_updated = 1000,
      ttl_seconds = 30\<rparr>"
    unfolding service_1000_def
    by (simp add: get_klines_fetch [OF n] bind_exn_def demo_parse Let_def
        demo_service_fields update_candles_def)
  show "calls (svc_client service_1000) = [GetKlines ''BTCUSDT'' ''5m'' 10]"
    unfolding service_1000_def by (simp add: get_klines_calls n demo_service_fields)
  show "svc_symbol service_1000 = ''BTCUSDT''" "timeframe service_1000 = ''5m''"
    unfolding service_1000_def by (simp_all add: get_klines_keeps_names demo_service_fields)
qed

lemma demo_quote_fetch:
  "ticker_fetch_needed service_1000 (ticker_at 1029 (Inr demo_ticker)) False"
  "get_ticker_price service_1000 (ticker_at 1029 (Inr demo_ticker)) False = (Inr 50100, service_1029)"
proof -
  show n: "ticker_fetch_needed service_1000 (ticker_at 1029 (Inr demo_ticker)) False"
    by (simp add: ticker_fetch_needed_def service_1000_fields truthy_price_def)
  show "get_ticker_price service_1000 (ticker_at 1029 (Inr demo_ticker)) False
      = (Inr 50100, service_1029)"
    unfolding service_1029_def
    by (simp add: get_ticker_fetch [OF n] bind_exn_def [of "Inr demo_ticker"] Let_def
        demo_ticker_price)
qed

lemma service_1029_fields:
  "cache service_1029 = \<lparr>candles = demo_candles, ticker_price = Some 50100,
      last_updated = 1029, ttl_seconds = 30\<rparr>"
  "calls (svc_client service_1029)
     = [GetKlines ''BTCUSDT'' ''5m'' 10, GetTickerPrice ''BTCUSDT'']"
  "svc_symbol service_1029 = ''BTCUSDT''" "timeframe service_1029 = ''5m''"
proof -
  have n: "ticker_fetch_needed service_1000 (ticker_at 1029 (Inr demo_ticker)) False"
    by (rule demo_quote_fetch)
  show "cache service_1029 = \<lparr>candles = demo_candles, ticker_price = Some 50100,
      last_updated = 1029, ttl_seconds = 30\<rparr>"
    unfolding service_1029_def
    by (simp add: get_ticker_fetch [OF n] bind_exn_def [of "Inr demo_ticker"] Let_def
        demo_ticker_price service_1000_fields update_ticker_def)
  show "calls (svc_client service_1029)
     = [GetKlines ''BTCUSDT'' ''5m'' 10, GetTickerPrice ''BTCUSDT'']"
    unfolding service_1029_def by (simp add: get_ticker_calls n service_1000_fields)
  show "svc_symbol service_1029 = ''BTCUSDT''" "timeframe service_1029 = ''5m''"
    unfolding service_1029_def by (simp_all add: get_ticker_keeps_names service_1000_fields)
qed

lemma demo_candles_nonempty: "demo_candles \<noteq> []"
  by (simp add: demo_candles_def)

text \<open>
  Claim C8. An entry that holds no value is never served: with an empty cached sequence
  \<open>get_klines\<close> calls the exchange whatever \<open>force_refresh\<close> and the clock are, and
  with no cached price, or a cached price of zero, so does \<open>get_ticker_price\<close>; in both
  cases the result is what the fetch gives.
\<close>

theorem unwritten_entry_is_fetched:
  "(candles (cache self) = [] \<longrightarrow>
      calls (svc_client (snd (get_klines self env limit force)))
        = calls (svc_client self) @ [GetKlines (svc_symbol self) (timeframe self) limit]
      \<and> fst (get_klines self env limit force) = bind_exn (kl_reply env) (map_exn from_binance))
   \<and> (ticker_price (cache self) = None \<or> ticker_price (cache self) = Some 0 \<longrightarrow>
      calls (svc_client (snd (get_ticker_price self tenv force)))
        = calls (svc_client self) @ [GetTickerPrice (svc_symbol self)]
      \<and> fst (get_ticker_price self tenv force)
        = bind_exn (tk_reply tenv) (\<lambda>data. bind_exn (py_getitem data ''price'') as_float))"
proof (intro conjI impI)
  assume "candles (cache self) = []"
  then have n: "klines_fetch_needed self env force"
    by (simp add: klines_fetch_needed_def)
  show "calls (svc_client (snd (get_klines self env limit force)))
        = calls (svc_client self) @ [GetKlines (svc_symbol self) (timeframe self) limit]"
    by (simp add: get_klines_calls n)
  show "fst (get_klines self env limit force) = bind_exn (kl_reply env) (map_exn from_binance)"
    by (simp add: get_klines_fetch [OF n] Let_def split: sum.splits)
next
  assume "ticker_price (cache self) = None \<or> ticker_price (cache self) = Some 0"
  then have n: "ticker_fetch_needed self tenv force"
    by (auto simp: ticker_fetch_needed_def truthy_price_def)
  show "calls (svc_client (snd (get_ticker_price self tenv force)))
        = calls (svc_client self) @ [GetTickerPrice (svc_symbol self)]"
    by (simp add: get_ticker_calls n)
  show "fst (get_ticker_price self tenv force)
        = bind_exn (tk_reply tenv) (\<lambda>data. bind_exn (py_getitem data ''price'') as_float)"
    by (simp add: get_ticker_fetch [OF n] Let_def split: sum.splits)
qed

theorem unwritten_entry_is_fetched_witness:
  "candles (cache demo_service) = []
   \<and> \<not> is_stale (cache demo_service) 5
   \<and> calls (svc_client (snd (get_klines demo_service (klines_at 5 (Inr demo_klines)) 10 False)))
       = [GetKlines ''BTCUSDT'' ''5m'' 10]
   \<and> fst (get_klines demo_service (klines_at 5 (Inr demo_klines)) 10 False) = Inr demo_candles
   \<and> ticker_price (cache demo_service) = None
   \<and> calls (svc_client (snd (get_ticker_price demo_service (ticker_at 5 (Inr demo_ticker)) False)))
       = [GetTickerPrice ''BTCUSDT'']
   \<and> fst (get_ticker_price demo_service (ticker_at 5 (Inr demo_ticker)) False) = Inr 50100"
proof -
  note t = unwritten_entry_is_fetched [where self = demo_service
      and env = "klines_at 5 (Inr demo_klines)" and limit = 10 and force = False
      and tenv = "ticker_at 5 (Inr demo_ticker)"]
  have h: "candles (cache demo_service) = []" "ticker_price (cache demo_service) = None"
    "\<not> is_stale (cache demo_service) 5"
    by (simp_all add: demo_service_fields is_stale_def)
  from t h show ?thesis
    by (simp add: demo_service_fields bind_exn_def [of "Inr demo_klines"]
        bind_exn_def [of "Inr demo_ticker"] demo_parse demo_ticker_price)
qed

text \<open>
  Claim C9. When \<open>get_klines\<close> goes to the exchange and the exchange call raises, the
  same exception leaves \<open>get_klines\<close> and the cache is as before the call (so is the
  stored file): a following call that finds the old entry fresh is answered with the old
  sequence.
\<close>

theorem failed_fetch_keeps_cache:
  assumes "klines_fetch_needed self env force" and "kl_reply env = Inl e"
  shows "fst (get_klines self env limit force) = Inl e
       \<and> cache (snd (get_klines self env limit force)) = cache self
       \<and> files (snd (get_klines self env limit force)) = files self
       \<and> (\<not> klines_fetch_needed self env' False \<longrightarrow>
            fst (get_klines (snd (get_klines self env limit force)) env' limit' False)
              = Inr (candles (cache self)))"
proof -
  have g: "get_klines self env limit force =
      (Inl e, svc_call (GetKlines (svc_symbol self) (timeframe self) limit) self)"
    using assms by (simp add: get_klines_fetch bind_exn_def)
  have k: "klines_fetch_needed (svc_call c self) env' False = klines_fetch_needed self env' False"
    for c by (simp add: klines_fetch_needed_def)
  show ?thesis
    by (simp add: g get_klines_cached k)
qed

theorem failed_fetch_keeps_cache_witness:
  "klines_fetch_needed service_1000 (klines_at 1040 (Inl (BinanceClientError ''Request timed out'' None)))
      False
   \<and> kl_reply (klines_at 1040 (Inl (BinanceClientError ''Request timed out'' None)))
       = Inl (BinanceClientError ''Request timed out'' None)
   \<and> fst (get_klines service_1000
          (klines_at 1040 (Inl (BinanceClientError ''Request timed out'' None))) 10 False)
       = Inl (BinanceClientError ''Request timed out'' None)
   \<and> cache (snd (get_klines service_1000
          (klines_at 1040 (Inl (BinanceClientError ''Request timed out'' None))) 10 False))
       = \<lparr>candles = demo_candles, ticker_price = None, last_updated = 1000, ttl_seconds = 30\<rparr>"
proof -
  let ?env = "klines_at 1040 (Inl (BinanceClientError ''Request timed out'' None))"
  have h1: "klines_fetch_needed service_1000 ?env False"
    by (simp add: klines_fetch_needed_def is_stale_def service_1000_fields)
  have h2: "kl_reply ?env = Inl (BinanceClientError ''Request timed out'' None)"
    by simp
  from failed_fetch_keeps_cache [OF h1 h2, where limit = 10] h1 h2
  show ?thesis
    by (simp add: service_1000_fields)
qed

section \<open>Properties of sequences of cache calls\<close>

lemma run_call_last_updated:
  "last_updated (cache (run_call self c))
     = (case call_writes self c of Some t' \<Rightarrow> t' | None \<Rightarrow> last_updated (cache self))"
proof (cases c)
  case (CallKlines env limit force)
  then show ?thesis
    by (cases "fst (get_klines self env limit force)")
      (auto simp: get_klines_cache [of self env limit force] get_klines_calls)
next
  case (CallTicker env force)
  then show ?thesis
    by (cases "fst (get_ticker_price self env force)")
      (auto simp: get_ticker_cache [of self env force] get_ticker_calls)
qed

lemma run_calls_last_updated:
  "last_updated (cache (run_calls self cs)) = last_write self (last_updated (cache self)) cs"
  unfolding run_calls_def
  by (induction cs arbitrary: self) (simp_all add: run_call_last_updated)

lemma demo_third_call:
  "get_klines service_1029 (klines_at 1040 (Inr demo_klines)) 10 False
     = (Inr demo_candles, service_1029)"
proof -
  have "\<not> klines_fetch_needed service_1029 (klines_at 1040 (Inr demo_klines)) False"
    by (simp add: klines_fetch_needed_def service_1029_fields is_stale_def
        demo_candles_nonempty)
  then show ?thesis
    by (simp add: get_klines_cached service_1029_fields)
qed

lemma demo_sequence:
  "last_write demo_service (last_updated (cache demo_service))
     [CallKlines (klines_at 1000 (Inr demo_klines)) 10 False,
      CallTicker (ticker_at 1029 (Inr demo_ticker)) False,
      CallKlines (klines_at 1040 (Inr demo_klines)) 10 False] = 1029"
  by (simp add: demo_first_fetch demo_quote_fetch demo_third_call demo_service_fields
      service_1000_fields service_1029_fields)

text \<open>
  Claim C2 fails. Candles are fetched at time 1000 and the quote at time 1029, with a
  TTL of 30 seconds. The quote's fetch moves the capture time that the candles are judged
  by to 1029, and at time 1040 \<open>get_klines\<close> serves the candles written 40 seconds before
  without a fetch; without the quote's fetch the same call goes to the exchange.
\<close>

theorem shared_clock_counterexample:
  "last_updated (cache service_1000) = 1000
   \<and> candles (cache service_1000) = demo_candles
   \<and> last_updated (cache service_1029) = 1029
   \<and> candles (cache service_1029) = demo_candles
   \<and> (1040::real) - 1000 > real_of_int (ttl_seconds (cache service_1029))
   \<and> get_klines service_1029 (klines_at 1040 (Inr demo_klines)) 10 False
       = (Inr demo_candles, service_1029)
   \<and> calls (svc_client (snd (get_klines service_1000 (klines_at 1040 (Inr demo_klines)) 10 False)))
       = calls (svc_client service_1000) @ [GetKlines ''BTCUSDT'' ''5m'' 10]"
proof -
  have a: "\<not> klines_fetch_needed service_1029 (klines_at 1040 (Inr demo_klines)) False"
    by (simp add: klines_fetch_needed_def service_1029_fields is_stale_def
        demo_candles_nonempty)
  have b: "klines_fetch_needed service_1000 (klines_at 1040 (Inr demo_klines)) False"
    by (simp add: klines_fetch_needed_def service_1000_fields is_stale_def)
  show ?thesis
    by (simp add: service_1000_fields service_1029_fields get_klines_cached [OF a]
        get_klines_calls b)
qed

text \<open>
  Claim C2, amended. The cache has one capture time, shared by the candle sequence and the
  quote. A \<open>get_klines\<close> call goes to the exchange exactly when \<open>force_refresh\<close> is set,
  or this capture time is more than the TTL back, or no candle is cached; a
  \<open>get_ticker_price\<close> call exactly when \<open>force_refresh\<close> is set, or the capture time is
  more than the TTL back, or the cached price is missing or zero. A fetch that succeeds
  writes its own value and the shared capture time and leaves the other value as it is;
  a call that does not fetch, or whose fetch fails, leaves the cache as it is. So after
  any sequence of calls of the two kinds the capture time is that of the last write of
  either entry.
\<close>

theorem cache_has_one_shared_clock:
  "calls (svc_client (snd (get_klines self env limit force)))
     = calls (svc_client self)
       @ (if force \<or> kl_now_check env - last_updated (cache self)
                        > real_of_int (ttl_seconds (cache self))
             \<or> candles (cache self) = []
          then [GetKlines (svc_symbol self) (timeframe self) limit] else [])
   \<and> calls (svc_client (snd (get_ticker_price self tenv tforce)))
     = calls (svc_client self)
       @ (if tforce \<or> tk_now_check tenv - last_updated (cache self)
                         > real_of_int (ttl_seconds (cache self))
             \<or> ticker_price (cache self) = None \<or> ticker_price (cache self) = Some 0
          then [GetTickerPrice (svc_symbol self)] else [])
   \<and> cache (snd (get_klines self env limit force))
     = (case fst (get_klines self env limit force) of
          Inr cs \<Rightarrow>
            if calls (svc_client (snd (get_klines self env limit force)))
                 = calls (svc_client self)
            then cache self
            else (cache self)\<lparr>candles := cs, last_updated := kl_now_update env\<rparr>
        | Inl e \<Rightarrow> cache self)
   \<and> cache (snd (get_ticker_price self tenv tforce))
     = (case fst (get_ticker_price self tenv tforce) of
          Inr p \<Rightarrow>
            if calls (svc_client (snd (get_ticker_price self tenv tforce)))
                 = calls (svc_client self)
            then cache self
            else (cache self)\<lparr>ticker_price := Some p, last_updated := tk_now_update tenv\<rparr>
        | Inl e \<Rightarrow> cache self)
   \<and> last_updated (cache (run_calls self cls))
     = last_write self (last_updated (cache self)) cls"
proof (intro conjI)
  show "last_updated (cache (run_calls self cls))
     = last_write self (last_updated (cache self)) cls"
    by (rule run_calls_last_updated)
next
  have k: "klines_fetch_needed self env force
      = (force \<or> kl_now_check env - last_updated (cache self)
                        > real_of_int (ttl_seconds (cache self))
             \<or> candles (cache self) = [])"
    by (simp add: klines_fetch_needed_def is_stale_def)
  have t: "ticker_fetch_needed self tenv tforce
      = (tforce \<or> tk_now_check tenv - last_updated (cache self)
                         > real_of_int (ttl_seconds (cache self))
             \<or> ticker_price (cache self) = None \<or> ticker_price (cache self) = Some 0)"
    by (auto simp: ticker_fetch_needed_def is_stale_def truthy_price_def split: option.splits)
  show "calls (svc_client (snd (get_klines self env limit force)))
     = calls (svc_client self)
       @ (if force \<or> kl_now_check env - last_updated (cache self)
                        > real_of_int (ttl_seconds (cache self))
             \<or> candles (cache self) = []
          then [GetKlines (svc_symbol self) (timeframe self) limit] else [])"
    unfolding get_klines_calls k ..
  show "calls (svc_client (snd (get_ticker_price self tenv tforce)))
     = calls (svc_client self)
       @ (if tforce \<or> tk_now_check tenv - last_updated (cache self)
                         > real_of_int (ttl_seconds (cache self))
             \<or> ticker_price (cache self) = None \<or> ticker_price (cache self) = Some 0
          then [GetTickerPrice (svc_symbol self)] else [])"
    unfolding get_ticker_calls t ..
  show "cache (snd (get_klines self env limit force))
     = (case fst (get_klines self env limit force) of
          Inr cs \<Rightarrow>
            if calls (svc_client (snd (get_klines self env limit force)))
                 = calls (svc_client self)
            then cache self
            else (cache self)\<lparr>candles := cs, last_updated := kl_now_update env\<rparr>
        | Inl e \<Rightarrow> cache self)"
    by (subst get_klines_cache)
      (simp add: get_klines_calls update_candles_def split: sum.splits)
  show "cache (snd (get_ticker_price self tenv tforce))
     = (case fst (get_ticker_price self tenv tforce) of
          Inr p \<Rightarrow>
            if calls (svc_client (snd (get_ticker_price self tenv tforce)))
                 = calls (svc_client self)
            then cache self
            else (cache self)\<lparr>ticker_price := Some p, last_updated := tk_now_update tenv\<rparr>
        | Inl e \<Rightarrow> cache self)"
    by (subst get_ticker_cache)
      (simp add: get_ticker_calls update_ticker_def split: sum.splits)
qed

theorem cache_has_one_shared_clock_witness:
  "calls (svc_client (snd (get_ticker_price service_1000 (ticker_at 1029 (Inr demo_ticker)) False)))
     = [GetKlines ''BTCUSDT'' ''5m'' 10, GetTickerPrice ''BTCUSDT'']
   \<and> cache (snd (get_ticker_price service_1000 (ticker_at 1029 (Inr demo_ticker)) False))
     = \<lparr>candles = demo_candles, ticker_price = Some 50100, last_updated = 1029,
        ttl_seconds = 30\<rparr>
   \<and> calls (svc_client (snd (get_klines service_1029 (klines_at 1040 (Inr demo_klines)) 10 False)))
     = calls (svc_client service_1029)
   \<and> last_updated (cache (run_calls demo_service
       [CallKlines (klines_at 1000 (Inr demo_klines)) 10 False,
        CallTicker (ticker_at 1029 (Inr demo_ticker)) False,
        CallKlines (klines_at 1040 (Inr demo_klines)) 10 False])) = 1029"
proof -
  note v = cache_has_one_shared_clock [where self = demo_service and cls =
      "[CallKlines (klines_at 1000 (Inr demo_klines)) 10 False,
        CallTicker (ticker_at 1029 (Inr demo_ticker)) False,
        CallKlines (klines_at 1040 (Inr demo_klines)) 10 False]"]
  from v have d: "last_updated (cache (run_calls demo_service
       [CallKlines (klines_at 1000 (Inr demo_klines)) 10 False,
        CallTicker (ticker_at 1029 (Inr demo_ticker)) False,
        CallKlines (klines_at 1040 (Inr demo_klines)) 10 False])) = 1029"
    unfolding demo_sequence by blast
  note t = cache_has_one_shared_clock [of service_1000 "klines_at 1040 (Inr demo_klines)" 10 False
      "ticker_at 1029 (Inr demo_ticker)" False]
  note u = cache_has_one_shared_clock [of service_1029 "klines_at 1040 (Inr demo_klines)" 10 False
      "ticker_at 1029 (Inr demo_ticker)" False]
  have f: "fst (get_ticker_price service_1000 (ticker_at 1029 (Inr demo_ticker)) False) = Inr 50100"
    by (simp add: demo_quote_fetch)
  from t have a: "calls (svc_client (snd (get_ticker_price service_1000
        (ticker_at 1029 (Inr demo_ticker)) False)))
     = [GetKlines ''BTCUSDT'' ''5m'' 10, GetTickerPrice ''BTCUSDT'']"
    by (simp add: service_1000_fields)
  from t have b: "cache (snd (get_ticker_price service_1000 (ticker_at 1029 (Inr demo_ticker)) False))
     = \<lparr>candles = demo_candles, ticker_price = Some 50100, last_updated = 1029,
        ttl_seconds = 30\<rparr>"
    by (simp add: f a service_1000_fields)
  from u have c: "calls (svc_client (snd (get_klines service_1029
        (klines_at 1040 (Inr demo_klines)) 10 False))) = calls (svc_client service_1029)"
    by (simp add: service_1029_fields demo_candles_nonempty)
  from a b c d show ?thesis by blast
qed

lemma run_call_keeps:
  "ttl_seconds (cache (run_call self c)) = ttl_seconds (cache self)"
  "svc_symbol (run_call self c) = svc_symbol self"
  "timeframe (run_call self c) = timeframe self"
proof -
  show "ttl_seconds (cache (run_call self c)) = ttl_seconds (cache self)"
  proof (cases c)
    case (CallKlines env limit force)
    then show ?thesis
      by (cases "fst (get_klines self env limit force)")
        (simp_all add: get_klines_cache [of self env limit force])
  next
    case (CallTicker env force)
    then show ?thesis
      by (cases "fst (get_ticker_price self env force)")
        (simp_all add: get_ticker_cache [of self env force])
  qed
  show "svc_symbol (run_call self c) = svc_symbol self"
    by (cases c) (simp_all add: get_klines_keeps_names get_ticker_keeps_names)
  show "timeframe (run_call self c) = timeframe self"
    by (cases c) (simp_all add: get_klines_keeps_names get_ticker_keeps_names)
qed

lemma run_calls_keeps:
  "ttl_seconds (cache (run_calls self cls)) = ttl_seconds (cache self)"
  "svc_symbol (run_calls self cls) = svc_symbol self"
  "timeframe (run_calls self cls) = timeframe self"
  unfolding run_calls_def
  by (induction cls arbitrary: self) (simp_all add: run_call_keeps)

text \<open>
  What a \<open>get_klines\<close> call without \<open>force_refresh\<close> does in a state, by the age of
  the capture time.
\<close>

lemma get_klines_by_age:
  "(candles (cache s) \<noteq> []
      \<and> kl_now_check env - last_updated (cache s) \<le> real_of_int (ttl_seconds (cache s))
    \<longrightarrow> get_klines s env limit False = (Inr (candles (cache s)), s))
   \<and> (kl_now_check env - last_updated (cache s) > real_of_int (ttl_seconds (cache s))
    \<longrightarrow> calls (svc_client (snd (get_klines s env limit False)))
          = calls (svc_client s) @ [GetKlines (svc_symbol s) (timeframe s) limit]
        \<and> (\<forall>cs'. fst (get_klines s env limit False) = Inr cs' \<longrightarrow>
              candles (cache (snd (get_klines s env limit False))) = cs'
              \<and> last_updated (cache (snd (get_klines s env limit False)))
                  = kl_now_update env))"
proof (intro conjI impI; (elim conjE)?)
  assume "candles (cache s) \<noteq> []"
    and "kl_now_check env - last_updated (cache s) \<le> real_of_int (ttl_seconds (cache s))"
  then have "\<not> klines_fetch_needed s env False"
    by (simp add: klines_fetch_needed_def is_stale_def)
  then show "get_klines s env limit False = (Inr (candles (cache s)), s)"
    by (rule get_klines_cached)
next
  assume "kl_now_check env - last_updated (cache s) > real_of_int (ttl_seconds (cache s))"
  then have f: "klines_fetch_needed s env False"
    by (simp add: klines_fetch_needed_def is_stale_def)
  show "calls (svc_client (snd (get_klines s env limit False)))
          = calls (svc_client s) @ [GetKlines (svc_symbol s) (timeframe s) limit]"
    by (simp add: get_klines_calls f)
  show "\<forall>cs'. fst (get_klines s env limit False) = Inr cs' \<longrightarrow>
              candles (cache (snd (get_klines s env limit False))) = cs'
              \<and> last_updated (cache (snd (get_klines s env limit False)))
                  = kl_now_update env"
    by (simp add: get_klines_cache [of s env limit False] f)
qed

lemma get_ticker_by_age:
  "(truthy_price (ticker_price (cache s))
      \<and> tk_now_check env - last_updated (cache s) \<le> real_of_int (ttl_seconds (cache s))
    \<longrightarrow> get_ticker_price s env False = (Inr (the (ticker_price (cache s))), s))
   \<and> (tk_now_check env - last_updated (cache s) > real_of_int (ttl_seconds (cache s))
    \<longrightarrow> calls (svc_client (snd (get_ticker_price s env False)))
          = calls (svc_client s) @ [GetTickerPrice (svc_symbol s)]
        \<and> (\<forall>p'. fst (get_ticker_price s env False) = Inr p' \<longrightarrow>
              ticker_price (cache (snd (get_ticker_price s env False))) = Some p'
              \<and> last_updated (cache (snd (get_ticker_price s env False)))
                  = tk_now_update env))"
proof (intro conjI impI; (elim conjE)?)
  assume "truthy_price (ticker_price (cache s))"
    and "tk_now_check env - last_updated (cache s) \<le> real_of_int (ttl_seconds (cache s))"
  then have "\<not> ticker_fetch_needed s env False"
    by (simp add: ticker_fetch_needed_def is_stale_def)
  then show "get_ticker_price s env False = (Inr (the (ticker_price (cache s))), s)"
    by (rule get_ticker_cached)
next
  assume "tk_now_check env - last_updated (cache s) > real_of_int (ttl_seconds (cache s))"
  then have f: "ticker_fetch_needed s env False"
    by (simp add: ticker_fetch_needed_def is_stale_def)
  show "calls (svc_client (snd (get_ticker_price s env False)))
          = calls (svc_client s) @ [GetTickerPrice (svc_symbol s)]"
    by (simp add: get_ticker_calls f)
  show "\<forall>p'. fst (get_ticker_price s env False) = Inr p' \<longrightarrow>
              ticker_price (cache (snd (get_ticker_price s env False))) = Some p'
              \<and> last_updated (cache (snd (get_ticker_price s env False)))
                  = tk_now_update env"
    by (simp add: get_ticker_cache [of s env False] f)
qed

lemma demo_empty_fetch:
  "get_klines demo_service (klines_at 1000 (Inr [])) 10 False = (Inr [], service_empty_1000)"
  "cache service_empty_1000
     = \<lparr>candles = [], ticker_price = None, last_updated = 1000, ttl_seconds = 30\<rparr>"
  "calls (svc_client service_empty_1000) = [GetKlines ''BTCUSDT'' ''5m'' 10]"
  "svc_symbol service_empty_1000 = ''BTCUSDT''" "timeframe service_empty_1000 = ''5m''"
proof -
  have n: "klines_fetch_needed demo_service (klines_at 1000 (Inr [])) False"
    by (simp add: klines_fetch_needed_def demo_service_fields)
  show "get_klines demo_service (klines_at 1000 (Inr [])) 10 False = (Inr [], service_empty_1000)"
    unfolding service_empty_1000_def
    by (simp add: get_klines_fetch [OF n] bind_exn_def Let_def)
  show "cache service_empty_1000
     = \<lparr>candles = [], ticker_price = None, last_updated = 1000, ttl_seconds = 30\<rparr>"
    unfolding service_empty_1000_def
    by (simp add: get_klines_fetch [OF n] bind_exn_def Let_def
        demo_service_fields update_candles_def)
  show "calls (svc_client service_empty_1000) = [GetKlines ''BTCUSDT'' ''5m'' 10]"
    unfolding service_empty_1000_def by (simp add: get_klines_calls n demo_service_fields)
  show "svc_symbol service_empty_1000 = ''BTCUSDT''" "timeframe service_empty_1000 = ''5m''"
    unfolding service_empty_1000_def by (simp_all add: get_klines_keeps_names demo_service_fields)
qed

text \<open>
  Claim C7 fails as stated, in two ways. The exchange answers a fetch at time 1000 with no
  candle: the fetch succeeds and stamps the cache, and one second later, well inside the
  TTL of 30 seconds, a call without \<open>force_refresh\<close> goes to the exchange again. And
  after a fetch of two candles at time 1000 and a fetch of the quote at time 1029, a
  \<open>get_klines\<close> call at time 1040, when the TTL has elapsed since the candle fetch,
  makes no exchange call and returns the candles of time 1000.
\<close>

theorem empty_fetch_is_repeated_counterexample:
  "get_klines demo_service (klines_at 1000 (Inr [])) 10 False = (Inr [], service_empty_1000)
   \<and> calls (svc_client service_empty_1000) = [GetKlines ''BTCUSDT'' ''5m'' 10]
   \<and> last_updated (cache service_empty_1000) = 1000
   \<and> (1001::real) - 1000 \<le> real_of_int (ttl_seconds (cache service_empty_1000))
   \<and> calls (svc_client (snd (get_klines service_empty_1000 (klines_at 1001 (Inr [])) 10 False)))
       = [GetKlines ''BTCUSDT'' ''5m'' 10, GetKlines ''BTCUSDT'' ''5m'' 10]
   \<and> get_klines demo_service (klines_at 1000 (Inr demo_klines)) 10 False
       = (Inr demo_candles, service_1000)
   \<and> calls (svc_client service_1000) = [GetKlines ''BTCUSDT'' ''5m'' 10]
   \<and> service_1029 = snd (get_ticker_price service_1000 (ticker_at 1029 (Inr demo_ticker)) False)
   \<and> (1040::real) - 1000 > real_of_int (ttl_seconds (cache service_1029))
   \<and> get_klines service_1029 (klines_at 1040 (Inr demo_klines)) 10 False
       = (Inr demo_candles, service_1029)"
proof -
  have n2: "klines_fetch_needed service_empty_1000 (klines_at 1001 (Inr [])) False"
    by (simp add: klines_fetch_needed_def demo_empty_fetch)
  show ?thesis
    by (simp add: demo_empty_fetch get_klines_calls n2 demo_first_fetch service_1000_fields
        service_1029_fields demo_third_call)
      (simp add: service_1029_def)
qed

text \<open>
  Claim C7, amended. A successful candle fetch leaves the fetched sequence in the cache,
  stamped with the time of the fetch. After it and any further calls of the cache, a
  \<open>get_klines\<close> call without \<open>force_refresh\<close> returns the cached sequence and leaves the
  service as it is (no exchange call) if that sequence is not empty and the call reads
  the clock at most the TTL after the capture time, which is the time of the last write
  of either entry (the candle fetch itself when nothing was written since); if it reads
  the clock more than the TTL after the capture time, it makes exactly one exchange call
  and, if that gives a sequence, the cache holds this sequence, stamped with the time of
  the update. The same holds for the quote, with a cached price that is neither missing
  nor zero in the place of a sequence that is not empty.
\<close>

theorem fresh_entry_served_stale_entry_fetched:
  "(get_klines self env0 limit0 force0 = (Inr cs, self1)
      \<and> klines_fetch_needed self env0 force0 \<longrightarrow>
      candles (cache self1) = cs \<and> last_updated (cache self1) = kl_now_update env0
      \<and> (candles (cache (run_calls self1 cls)) \<noteq> []
          \<and> kl_now_check env - last_write self1 (kl_now_update env0) cls
              \<le> real_of_int (ttl_seconds (cache self)) \<longrightarrow>
           get_klines (run_calls self1 cls) env limit False
             = (Inr (candles (cache (run_calls self1 cls))), run_calls self1 cls))
      \<and> (kl_now_check env - last_write self1 (kl_now_update env0) cls
              > real_of_int (ttl_seconds (cache self)) \<longrightarrow>
           calls (svc_client (snd (get_klines (run_calls self1 cls) env limit False)))
             = calls (svc_client (run_calls self1 cls))
               @ [GetKlines (svc_symbol self) (timeframe self) limit]
           \<and> (\<forall>cs'. fst (get_klines (run_calls self1 cls) env limit False) = Inr cs' \<longrightarrow>
                candles (cache (snd (get_klines (run_calls self1 cls) env limit False))) = cs'
                \<and> last_updated (cache (snd (get_klines (run_calls self1 cls) env limit False)))
                    = kl_now_update env)))
   \<and> (get_ticker_price self tenv0 tforce0 = (Inr p, self2)
      \<and> ticker_fetch_needed self tenv0 tforce0 \<longrightarrow>
      ticker_price (cache self2) = Some p \<and> last_updated (cache self2) = tk_now_update tenv0
      \<and> (truthy_price (ticker_price (cache (run_calls self2 cls)))
          \<and> tk_now_check tenv - last_write self2 (tk_now_update tenv0) cls
              \<le> real_of_int (ttl_seconds (cache self)) \<longrightarrow>
           get_ticker_price (run_calls self2 cls) tenv False
             = (Inr (the (ticker_price (cache (run_calls self2 cls)))), run_calls self2 cls))
      \<and> (tk_now_check tenv - last_write self2 (tk_now_update tenv0) cls
              > real_of_int (ttl_seconds (cache self)) \<longrightarrow>
           calls (svc_client (snd (get_ticker_price (run_calls self2 cls) tenv False)))
             = calls (svc_client (run_calls self2 cls)) @ [GetTickerPrice (svc_symbol self)]
           \<and> (\<forall>p'. fst (get_ticker_price (run_calls self2 cls) tenv False) = Inr p' \<longrightarrow>
                ticker_price (cache (snd (get_ticker_price (run_calls self2 cls) tenv False)))
                  = Some p'
                \<and> last_updated (cache (snd (get_ticker_price (run_calls self2 cls) tenv False)))
                    = tk_now_update tenv)))"
proof (intro conjI impI; (elim conjE)?)
  assume g: "get_klines self env0 limit0 force0 = (Inr cs, self1)"
    and n: "klines_fetch_needed self env0 force0"
  from get_klines_cache [of self env0 limit0 force0] g n
  have c: "cache self1 = update_candles (cache self) cs (kl_now_update env0)"
    by simp
  from get_klines_keeps_names [of self env0 limit0 force0] g
  have nm: "svc_symbol self1 = svc_symbol self" "timeframe self1 = timeframe self"
    by simp_all
  let ?s = "run_calls self1 cls"
  have s: "last_updated (cache ?s) = last_write self1 (kl_now_update env0) cls"
    "ttl_seconds (cache ?s) = ttl_seconds (cache self)"
    "svc_symbol ?s = svc_symbol self" "timeframe ?s = timeframe self"
    by (simp_all add: run_calls_last_updated run_calls_keeps c nm)
  note a = get_klines_by_age [of ?s env limit, unfolded s]
  show "candles (cache self1) = cs" "last_updated (cache self1) = kl_now_update env0"
    by (simp_all add: c)
  {
    assume "candles (cache ?s) \<noteq> []"
      and "kl_now_check env - last_write self1 (kl_now_update env0) cls
              \<le> real_of_int (ttl_seconds (cache self))"
    with a show "get_klines ?s env limit False = (Inr (candles (cache ?s)), ?s)"
      by blast
  }
  {
    assume h: "kl_now_check env - last_write self1 (kl_now_update env0) cls
              > real_of_int (ttl_seconds (cache self))"
    with a show "calls (svc_client (snd (get_klines ?s env limit False)))
             = calls (svc_client ?s) @ [GetKlines (svc_symbol self) (timeframe self) limit]"
      by blast
    from a h show "\<forall>cs'. fst (get_klines ?s env limit False) = Inr cs' \<longrightarrow>
                candles (cache (snd (get_klines ?s env limit False))) = cs'
                \<and> last_updated (cache (snd (get_klines ?s env limit False)))
                    = kl_now_update env"
      by blast
  }
next
  assume g: "get_ticker_price self tenv0 tforce0 = (Inr p, self2)"
    and n: "ticker_fetch_needed self tenv0 tforce0"
  from get_ticker_cache [of self tenv0 tforce0] g n
  have c: "cache self2 = update_ticker (cache self) p (tk_now_update tenv0)"
    by simp
  from get_ticker_keeps_names [of self tenv0 tforce0] g
  have nm: "svc_symbol self2 = svc_symbol self" "timeframe self2 = timeframe self"
    by simp_all
  let ?s = "run_calls self2 cls"
  have s: "last_updated (cache ?s) = last_write self2 (tk_now_update tenv0) cls"
    "ttl_seconds (cache ?s) = ttl_seconds (cache self)"
    "svc_symbol ?s = svc_symbol self"
    by (simp_all add: run_calls_last_updated run_calls_keeps c nm)
  note a = get_ticker_by_age [of ?s tenv, unfolded s]
  show "ticker_price (cache self2) = Some p" "last_updated (cache self2) = tk_now_update tenv0"
    by (simp_all add: c)
  {
    assume "truthy_price (ticker_price (cache ?s))"
      and "tk_now_check tenv - last_write self2 (tk_now_update tenv0) cls
              \<le> real_of_int (ttl_seconds (cache self))"
    with a show "get_ticker_price ?s tenv False = (Inr (the (ticker_price (cache ?s))), ?s)"
      by blast
  }
  {
    assume h: "tk_now_check tenv - last_write self2 (tk_now_update tenv0) cls
              > real_of_int (ttl_seconds (cache self))"
    with a show "calls (svc_client (snd (get_ticker_price ?s tenv False)))
             = calls (svc_client ?s) @ [GetTickerPrice (svc_symbol self)]"
      by blast
    from a h show "\<forall>p'. fst (get_ticker_price ?s tenv False) = Inr p' \<longrightarrow>
                ticker_price (cache (snd (get_ticker_price ?s tenv False))) = Some p'
                \<and> last_updated (cache (snd (get_ticker_price ?s tenv False)))
                    = tk_now_update tenv"
      by blast
  }
qed

lemma demo_quote_writes:
  "call_writes service_1000 (CallTicker (ticker_at 1029 (Inr demo_ticker)) False) = Some 1029"
  "run_call service_1000 (CallTicker (ticker_at 1029 (Inr demo_ticker)) False) = service_1029"
proof -
  show "call_writes service_1000 (CallTicker (ticker_at 1029 (Inr demo_ticker)) False)
      = Some 1029"
    by (simp only: call_writes.simps demo_quote_fetch)
      (simp add: service_1000_fields service_1029_fields)
  show "run_call service_1000 (CallTicker (ticker_at 1029 (Inr demo_ticker)) False)
      = service_1029"
    by (simp only: run_call.simps demo_quote_fetch snd_conv)
qed

lemma demo_run_quote:
  "run_calls service_1000 [CallTicker (ticker_at 1029 (Inr demo_ticker)) False] = service_1029"
  "last_write service_1000 1000 [CallTicker (ticker_at 1029 (Inr demo_ticker)) False] = 1029"
  by (simp_all only: run_calls_def foldl.simps last_write.simps demo_quote_writes option.case)

theorem fresh_entry_served_stale_entry_fetched_witness:
  "get_klines demo_service (klines_at 1000 (Inr demo_klines)) 10 False = (Inr demo_candles, service_1000)
   \<and> klines_fetch_needed demo_service (klines_at 1000 (Inr demo_klines)) False
   \<and> last_write service_1000 (kl_now_update (klines_at 1000 (Inr demo_klines)))
        [CallTicker (ticker_at 1029 (Inr demo_ticker)) False] = 1029
   \<and> candles (cache (run_calls service_1000 [CallTicker (ticker_at 1029 (Inr demo_ticker)) False]))
       = demo_candles
   \<and> demo_candles \<noteq> []
   \<and> kl_now_check (klines_at 1040 (Inr demo_klines)) - 1029
       \<le> real_of_int (ttl_seconds (cache demo_service))
   \<and> get_klines (run_calls service_1000 [CallTicker (ticker_at 1029 (Inr demo_ticker)) False])
        (klines_at 1040 (Inr demo_klines)) 10 False
       = (Inr demo_candles, service_1029)
   \<and> kl_now_check (klines_at 1040 (Inr demo_klines))
        - last_write service_1000 (kl_now_update (klines_at 1000 (Inr demo_klines))) []
       > real_of_int (ttl_seconds (cache demo_service))
   \<and> calls (svc_client (snd (get_klines (run_calls service_1000 [])
        (klines_at 1040 (Inr demo_klines)) 10 False)))
       = [GetKlines ''BTCUSDT'' ''5m'' 10, GetKlines ''BTCUSDT'' ''5m'' 10]
   \<and> get_ticker_price service_1000 (ticker_at 1029 (Inr demo_ticker)) False = (Inr 50100, service_1029)
   \<and> ticker_fetch_needed service_1000 (ticker_at 1029 (Inr demo_ticker)) False
   \<and> get_ticker_price (run_calls service_1029 []) (ticker_at 1040 (Inr demo_ticker)) False
       = (Inr 50100, service_1029)"
proof -
  let ?q = "[CallTicker (ticker_at 1029 (Inr demo_ticker)) False]"
  note t = fresh_entry_served_stale_entry_fetched [where self = demo_service
      and ?env0.0 = "klines_at 1000 (Inr demo_klines)" and ?limit0.0 = 10 and ?force0.0 = False
      and cs = demo_candles and ?self1.0 = service_1000 and cls = ?q
      and env = "klines_at 1040 (Inr demo_klines)" and limit = 10]
  note u = fresh_entry_served_stale_entry_fetched [where self = demo_service
      and ?env0.0 = "klines_at 1000 (Inr demo_klines)" and ?limit0.0 = 10 and ?force0.0 = False
      and cs = demo_candles and ?self1.0 = service_1000 and cls = "[]"
      and env = "klines_at 1040 (Inr demo_klines)" and limit = 10]
  note v = fresh_entry_served_stale_entry_fetched [where self = service_1000
      and ?tenv0.0 = "ticker_at 1029 (Inr demo_ticker)" and ?tforce0.0 = False
      and p = 50100 and ?self2.0 = service_1029 and cls = "[]"
      and tenv = "ticker_at 1040 (Inr demo_ticker)"]
  have h1: "get_klines demo_service (klines_at 1000 (Inr demo_klines)) 10 False
        = (Inr demo_candles, service_1000)
      \<and> klines_fetch_needed demo_service (klines_at 1000 (Inr demo_klines)) False"
    by (simp add: demo_first_fetch)
  have h2: "last_write service_1000 (kl_now_update (klines_at 1000 (Inr demo_klines))) ?q = 1029"
    "candles (cache (run_calls service_1000 ?q)) = demo_candles"
    "run_calls service_1000 ?q = service_1029"
    by (simp_all add: demo_run_quote service_1029_fields del: last_write.simps)
  have h3: "kl_now_check (klines_at 1040 (Inr demo_klines)) - 1029
       \<le> real_of_int (ttl_seconds (cache demo_service))"
    "kl_now_check (klines_at 1040 (Inr demo_klines))
        - last_write service_1000 (kl_now_update (klines_at 1000 (Inr demo_klines))) []
       > real_of_int (ttl_seconds (cache demo_service))"
    by (simp_all add: demo_service_fields)
  have h4: "get_ticker_price service_1000 (ticker_at 1029 (Inr demo_ticker)) False
        = (Inr 50100, service_1029)
      \<and> ticker_fetch_needed service_1000 (ticker_at 1029 (Inr demo_ticker)) False"
    by (simp add: demo_quote_fetch)
  have h5: "truthy_price (ticker_price (cache (run_calls service_1029 [])))"
    "tk_now_check (ticker_at 1040 (Inr demo_ticker))
       - last_write service_1029 (tk_now_update (ticker_at 1029 (Inr demo_ticker))) []
       \<le> real_of_int (ttl_seconds (cache service_1000))"
    "the (ticker_price (cache (run_calls service_1029 []))) = 50100"
    "run_calls service_1029 [] = service_1029" "run_calls service_1000 [] = service_1000"
    by (simp_all add: run_calls_def service_1029_fields service_1000_fields truthy_price_def)
  from t h1 h2 h3(1) have a: "get_klines (run_calls service_1000 ?q)
        (klines_at 1040 (Inr demo_klines)) 10 False
       = (Inr (candles (cache (run_calls service_1000 ?q))), run_calls service_1000 ?q)"
    using demo_candles_nonempty by (simp del: run_call.simps last_write.simps)
  from u h1 h3(2) have b: "calls (svc_client (snd (get_klines (run_calls service_1000 [])
        (klines_at 1040 (Inr demo_klines)) 10 False)))
       = calls (svc_client (run_calls service_1000 []))
         @ [GetKlines (svc_symbol demo_service) (timeframe demo_service) 10]"
    by blast
  from v h4 h5(1,2) have c: "get_ticker_price (run_calls service_1029 [])
        (ticker_at 1040 (Inr demo_ticker)) False
       = (Inr (the (ticker_price (cache (run_calls service_1029 [])))), run_calls service_1029 [])"
    by blast
  from h1 h2 h3 h4 a b c show ?thesis
    using demo_candles_nonempty
    by (simp add: h5 service_1000_fields service_1029_fields demo_service_fields
        del: last_write.simps)
qed

end
